theory Spec2Isabelle
  imports Main
begin

section \<open>Data model\<close>

text \<open>
  The embedding follows \<^verbatim>\<open>src/a1/src/PointCloud.cpp\<close>: the two search routines
  \<^verbatim>\<open>PointCloud::ransac\<close> (lines 173-238) and \<^verbatim>\<open>PointCloud::ransacMultiple\<close>
  (lines 240-265).

  A \<^verbatim>\<open>Point\<close> carries a position, a normal and the enabled flag. The vector type is
  left as a type parameter \<open>'v\<close>: the two routines never compute with coordinates,
  they only hand positions to the plane fit and to the range query.
\<close>

record 'v Point =
  position :: 'v
  normal :: 'v
  enabled :: bool

text \<open>
  A \<^verbatim>\<open>Point *\<close> always points into the vector \<^verbatim>\<open>points\<close> of the cloud
  (\<^verbatim>\<open>&points[i]\<close>, line 196); it is represented by the index \<open>i\<close>.
\<close>

type_synonym ptr = nat

text \<open>
  A \<^verbatim>\<open>Slab\<close> is a plane with a thickness and display corners. The plane type
  \<open>'pl\<close> and the scalar type \<open>'r\<close> (\<^verbatim>\<open>Real\<close>) are parameters. The corners are
  \<open>None\<close> until \<^verbatim>\<open>updateCorners\<close> has computed them.
\<close>

record ('v, 'pl, 'r) Slab =
  plane :: 'pl
  thickness :: 'r
  corners :: "'v list option"

text \<open>The members of \<^verbatim>\<open>PointCloud\<close>: the point vector and the bounding box.\<close>

record 'v PointCloud =
  points :: "'v Point list"
  bbox :: "('v \<times> 'v) option"

text \<open>
  What the two routines call but \<^verbatim>\<open>PointCloud.cpp\<close> does not define is collected in
  one record of parameters:
  \<^item> \<open>fromThreePoints\<close>: \<^verbatim>\<open>Plane3::fromThreePoints\<close>;
  \<^item> \<open>slabContains\<close>: the inlier test of a slab, given its plane and thickness;
  \<^item> \<open>computeCorners\<close>: the corners \<^verbatim>\<open>Slab::updateCorners\<close> stores, from the
    slab's plane and thickness and the points handed to it;
  \<^item> \<open>uni\<close>: one draw \<^verbatim>\<open>uni(rng)\<close> of a
    \<^verbatim>\<open>std::uniform_int_distribution<int>(a, b)\<close> from a generator state \<open>'g\<close>,
    giving the number drawn and the generator's next state;
  \<^item> \<open>defaultSlab\<close>: the default-constructed \<^verbatim>\<open>Slab\<close> of line 250.
\<close>

record ('v, 'pl, 'r, 'g) env =
  fromThreePoints :: "'v \<Rightarrow> 'v \<Rightarrow> 'v \<Rightarrow> 'pl"
  slabContains :: "'pl \<Rightarrow> 'r \<Rightarrow> 'v \<Rightarrow> bool"
  computeCorners :: "'pl \<Rightarrow> 'r \<Rightarrow> 'v Point list \<Rightarrow> 'v list"
  uni :: "int \<Rightarrow> int \<Rightarrow> 'g \<Rightarrow> int \<times> 'g"
  defaultSlab :: "('v, 'pl, 'r) Slab"

text \<open>
  Undefined behaviour of the C++ is a value of the model: reading \<^verbatim>\<open>pp[k]\<close> outside
  the vector, constructing the distribution with an upper bound below its lower bound,
  and overflowing the \<^verbatim>\<open>int\<close> loop counter of line 209.
\<close>

datatype fault = IndexOutOfRange | InvalidDistribution | CounterOverflow

section \<open>Machine integers\<close>

text \<open>
  \<^verbatim>\<open>pp.size() - 1\<close> is a subtraction of 64-bit unsigned numbers (\<^verbatim>\<open>size_t\<close>), and
  the result is converted to the \<^verbatim>\<open>int\<close> parameter of the distribution (line 213).
\<close>

definition size_minus_one :: "nat \<Rightarrow> int" where
  "size_minus_one n = (int n - 1) mod 2 ^ 64"

definition to_int32 :: "int \<Rightarrow> int" where
  "to_int32 x = (x + 2 ^ 31) mod 2 ^ 32 - 2 ^ 31"

definition INT_MAX :: int where
  "INT_MAX = 2 ^ 31 - 1"

section \<open>The collaborators of the search\<close>

text \<open>
  Modelled from the spec: \<^verbatim>\<open>PointKDTree\<close> (its constructor and \<^verbatim>\<open>rangeQuery\<close>) is
  not in \<^verbatim>\<open>PointCloud.cpp\<close>. The index stores the references it is built from and
  copies no point; a range query returns exactly the indexed points whose position
  satisfies the slab's inlier test, without duplicates, and has no side effect (spec
  4.1). The order of the answer is not specified; no theorem below depends on it.
\<close>

type_synonym PointKDTree = "ptr list"

definition PointKDTree :: "ptr list \<Rightarrow> PointKDTree" where
  "PointKDTree pp = pp"

definition rangeQuery ::
  "('v, 'pl, 'r, 'g) env \<Rightarrow> 'v Point list \<Rightarrow> PointKDTree \<Rightarrow> ('v, 'pl, 'r) Slab \<Rightarrow> ptr list" where
  "rangeQuery E ps kdt s =
     filter (\<lambda>p. slabContains E (plane s) (thickness s) (position (ps ! p))) kdt"

text \<open>
  Modelled from the spec: \<^verbatim>\<open>Slab\<close> (its constructor and \<^verbatim>\<open>updateCorners\<close>) is not in
  \<^verbatim>\<open>PointCloud.cpp\<close>. The constructor stores plane and thickness; \<^verbatim>\<open>updateCorners\<close>
  recomputes the corners from the plane and the inlier set and changes nothing else
  (spec 3 and 4.2).
\<close>

definition Slab :: "'pl \<Rightarrow> 'r \<Rightarrow> ('v, 'pl, 'r) Slab" where
  "Slab pl t = \<lparr>plane = pl, thickness = t, corners = None\<rparr>"

definition updateCorners ::
  "('v, 'pl, 'r, 'g) env \<Rightarrow> 'v Point list \<Rightarrow> ('v, 'pl, 'r) Slab \<Rightarrow> ptr list \<Rightarrow> ('v, 'pl, 'r) Slab" where
  "updateCorners E ps s pts =
     s\<lparr>corners := Some (computeCorners E (plane s) (thickness s) (map (\<lambda>p. ps ! p) pts))\<rparr>"

section \<open>ransac\<close>

text \<open>Lines 191-198: pointers to the enabled points, in the order of the vector.\<close>

definition enabled_ptrs :: "'v Point list \<Rightarrow> ptr list" where
  "enabled_ptrs ps = filter (\<lambda>i. enabled (ps ! i)) [0..<length ps]"

text \<open>
  The variables a call of \<^verbatim>\<open>ransac\<close> works on: the cloud (\<^verbatim>\<open>*this\<close>), the generator,
  \<^verbatim>\<open>maxPoints\<close>, and the two reference arguments \<^verbatim>\<open>slab\<close> and \<^verbatim>\<open>slab_points\<close>.
\<close>

record ('v, 'pl, 'r, 'g) ransac_vars =
  cloud :: "'v PointCloud"
  rng :: 'g
  maxPoints :: int
  slab :: "('v, 'pl, 'r) Slab"
  slab_points :: "ptr list"

text \<open>
  Lines 213-218: the distribution over \<open>[0, pp.size() - 1]\<close> and the three draws. The
  C++ leaves the order of the three calls \<^verbatim>\<open>uni(rng)\<close> in the argument list open; the
  model takes them left to right. Each number drawn indexes \<^verbatim>\<open>pp\<close>.
\<close>

definition draw3 ::
  "('v, 'pl, 'r, 'g) env \<Rightarrow> ptr list \<Rightarrow> 'g \<Rightarrow> fault + (int \<times> int \<times> int \<times> 'g)" where
  "draw3 E pp g =
     (let hi = to_int32 (size_minus_one (length pp)) in
      if hi < 0 then Inl InvalidDistribution
      else
        let (k1, g1) = uni E 0 hi g;
            (k2, g2) = uni E 0 hi g1;
            (k3, g3) = uni E 0 hi g2;
            n = int (length pp)
        in if 0 \<le> k1 \<and> k1 < n \<and> 0 \<le> k2 \<and> k2 < n \<and> 0 \<le> k3 \<and> k3 < n
           then Inr (k1, k2, k3, g3)
           else Inl IndexOutOfRange)"

text \<open>
  Lines 216-225: the plane through the three sampled points, the slab around it and
  the range query.
\<close>

definition candidate ::
  "('v, 'pl, 'r, 'g) env \<Rightarrow> 'v Point list \<Rightarrow> 'r \<Rightarrow> ptr list \<Rightarrow> PointKDTree \<Rightarrow>
   int \<times> int \<times> int \<Rightarrow> ('v, 'pl, 'r) Slab \<times> ptr list" where
  "candidate E ps slab_thickness pp kdt ks =
     (case ks of (k1, k2, k3) \<Rightarrow>
        let pl = fromThreePoints E (position (ps ! (pp ! nat k1)))
                                   (position (ps ! (pp ! nat k2)))
                                   (position (ps ! (pp ! nat k3)));
            localSlab = Slab pl slab_thickness;
            localPoints = rangeQuery E ps kdt localSlab
        in (localSlab, localPoints))"

text \<open>Lines 228-235: the candidate replaces the best one found so far, or is dropped.\<close>

definition record_best ::
  "('v, 'pl, 'r, 'g) env \<Rightarrow> int \<Rightarrow> ('v, 'pl, 'r) Slab \<Rightarrow> ptr list \<Rightarrow>
   ('v, 'pl, 'r, 'g) ransac_vars \<Rightarrow> ('v, 'pl, 'r, 'g) ransac_vars" where
  "record_best E min_points localSlab localPoints v =
     (let numPoints = int (length localPoints) in
      if numPoints > min_points \<and> numPoints > maxPoints v
      then v\<lparr>maxPoints := numPoints,
             slab := updateCorners E (points (cloud v)) localSlab localPoints,
             slab_points := localPoints\<rparr>
      else v)"

text \<open>Lines 213-235: one pass through the loop body, after the test of line 212.\<close>

definition ransac_iter ::
  "('v, 'pl, 'r, 'g) env \<Rightarrow> 'r \<Rightarrow> int \<Rightarrow> ptr list \<Rightarrow> PointKDTree \<Rightarrow>
   ('v, 'pl, 'r, 'g) ransac_vars \<Rightarrow> fault + ('v, 'pl, 'r, 'g) ransac_vars" where
  "ransac_iter E slab_thickness min_points pp kdt v =
     (case draw3 E pp (rng v) of
        Inl f \<Rightarrow> Inl f
      | Inr (k1, k2, k3, g') \<Rightarrow>
          (case candidate E (points (cloud v)) slab_thickness pp kdt (k1, k2, k3) of
             (localSlab, localPoints) \<Rightarrow>
               Inr (record_best E min_points localSlab localPoints (v\<lparr>rng := g'\<rparr>))))"

text \<open>
  Lines 209-237: the loop. The counter \<^verbatim>\<open>i\<close> is an \<^verbatim>\<open>int\<close> compared with the
  \<^verbatim>\<open>long num_iters\<close>: incrementing it at \<^verbatim>\<open>INT_MAX\<close> overflows. The result is the
  value returned together with the variables at that moment.
\<close>

function ransac_loop ::
  "('v, 'pl, 'r, 'g) env \<Rightarrow> int \<Rightarrow> 'r \<Rightarrow> int \<Rightarrow> ptr list \<Rightarrow> PointKDTree \<Rightarrow> int \<Rightarrow>
   ('v, 'pl, 'r, 'g) ransac_vars \<Rightarrow> fault + (int \<times> ('v, 'pl, 'r, 'g) ransac_vars)" where
  "ransac_loop E num_iters slab_thickness min_points pp kdt i v =
     (if i < num_iters then
        if length pp = 0 then Inr (0, v)
        else
          (case ransac_iter E slab_thickness min_points pp kdt v of
             Inl f \<Rightarrow> Inl f
           | Inr v' \<Rightarrow>
               if i = INT_MAX then Inl CounterOverflow
               else ransac_loop E num_iters slab_thickness min_points pp kdt (i + 1) v')
      else Inr (maxPoints v, v))"
  by pat_completeness auto
termination
  by (relation "measure (\<lambda>(E, num_iters, slab_thickness, min_points, pp, kdt, i, v). nat (num_iters - i))") auto

declare ransac_loop.simps [simp del]

text \<open>
  Lines 173-238. The generator state \<open>g\<close> is what \<^verbatim>\<open>std::mt19937 rng(rd())\<close> starts
  from; the caller's \<^verbatim>\<open>slab\<close> and \<^verbatim>\<open>slab_points\<close> come in as \<open>slab0\<close> and
  \<open>slab_points0\<close>.
\<close>

definition ransac ::
  "('v, 'pl, 'r, 'g) env \<Rightarrow> 'v PointCloud \<Rightarrow> 'g \<Rightarrow> int \<Rightarrow> 'r \<Rightarrow> int \<Rightarrow>
   ('v, 'pl, 'r) Slab \<Rightarrow> ptr list \<Rightarrow> fault + (int \<times> ('v, 'pl, 'r, 'g) ransac_vars)" where
  "ransac E pc g num_iters slab_thickness min_points slab0 slab_points0 =
     (let pp = enabled_ptrs (points pc);
          kdt = PointKDTree pp
      in ransac_loop E num_iters slab_thickness min_points pp kdt 0
           \<lparr>cloud = pc, rng = g, maxPoints = 0, slab = slab0, slab_points = slab_points0\<rparr>)"

section \<open>ransacMultiple\<close>

text \<open>
  The variables of a call of \<^verbatim>\<open>ransacMultiple\<close>: the cloud, whose enabled flags it
  writes, and the caller's vector \<^verbatim>\<open>slabs\<close>. The last two fields are not variables
  of the source; they keep what the source computes and drops, so that statements
  about it can be written down: \<open>inliers\<close> is the \<^verbatim>\<open>slab_points\<close> of every accepted
  round, in order, and \<open>returns\<close> is the value \<^verbatim>\<open>num_matching_pts\<close> of every round
  that ran, in order.
\<close>

record ('v, 'pl, 'r) extract_vars =
  xcloud :: "'v PointCloud"
  slabs :: "('v, 'pl, 'r) Slab list"
  inliers :: "ptr list list"
  returns :: "int list"

text \<open>Lines 244-245.\<close>

definition enable_all :: "'v PointCloud \<Rightarrow> 'v PointCloud" where
  "enable_all pc = pc\<lparr>points := map (\<lambda>p. p\<lparr>enabled := True\<rparr>) (points pc)\<rparr>"

text \<open>Lines 260-261: \<^verbatim>\<open>slab_points[j]->setEnabled(false)\<close> for every \<open>j\<close>.\<close>

definition disable_all :: "ptr list \<Rightarrow> 'v PointCloud \<Rightarrow> 'v PointCloud" where
  "disable_all pts pc =
     pc\<lparr>points := foldl (\<lambda>ps p. ps[p := (ps ! p)\<lparr>enabled := False\<rparr>]) (points pc) pts\<rparr>"

text \<open>
  Lines 248-262. Every round constructs a generator of its own
  (\<^verbatim>\<open>std::random_device\<close> in \<^verbatim>\<open>ransac\<close>); \<open>seed i\<close> is the state round \<open>i\<close> starts
  from.
\<close>

function ransacMultiple_loop ::
  "('v, 'pl, 'r, 'g) env \<Rightarrow> (int \<Rightarrow> 'g) \<Rightarrow> int \<Rightarrow> int \<Rightarrow> 'r \<Rightarrow> int \<Rightarrow> int \<Rightarrow>
   ('v, 'pl, 'r) extract_vars \<Rightarrow> fault + ('v, 'pl, 'r) extract_vars" where
  "ransacMultiple_loop E seed num_planes num_iters slab_thickness min_points i x =
     (if i < num_planes then
        (case ransac E (xcloud x) (seed i) num_iters slab_thickness min_points (defaultSlab E) [] of
           Inl f \<Rightarrow> Inl f
         | Inr (num_matching_pts, v) \<Rightarrow>
             if num_matching_pts \<le> 0
             then Inr (x\<lparr>xcloud := cloud v, returns := returns x @ [num_matching_pts]\<rparr>)
             else ransacMultiple_loop E seed num_planes num_iters slab_thickness min_points (i + 1)
                    (x\<lparr>xcloud := disable_all (slab_points v) (cloud v),
                       slabs := slabs x @ [slab v],
                       inliers := inliers x @ [slab_points v],
                       returns := returns x @ [num_matching_pts]\<rparr>))
      else Inr x)"
  by pat_completeness auto
termination
  by (relation "measure (\<lambda>(E, seed, num_planes, num_iters, slab_thickness, min_points, i, x). nat (num_planes - i))") auto

declare ransacMultiple_loop.simps [simp del]

text \<open>
  Lines 240-265. \<open>slabs0\<close> is the content of the caller's vector on entry. The result
  is the value returned together with the variables on return.
\<close>

definition ransacMultiple ::
  "('v, 'pl, 'r, 'g) env \<Rightarrow> (int \<Rightarrow> 'g) \<Rightarrow> 'v PointCloud \<Rightarrow> int \<Rightarrow> int \<Rightarrow> 'r \<Rightarrow> int \<Rightarrow>
   ('v, 'pl, 'r) Slab list \<Rightarrow> fault + (int \<times> ('v, 'pl, 'r) extract_vars)" where
  "ransacMultiple E seed pc num_planes num_iters slab_thickness min_points slabs0 =
     (let x0 = \<lparr>xcloud = enable_all pc, slabs = slabs0, inliers = [], returns = []\<rparr>;
          x1 = x0\<lparr>slabs := []\<rparr>
      in case ransacMultiple_loop E seed num_planes num_iters slab_thickness min_points 0 x1 of
           Inl f \<Rightarrow> Inl f
         | Inr x \<Rightarrow> Inr (int (length (slabs x)), x))"

section \<open>Notions for the statements\<close>

text \<open>
  The candidates of a call, in the order in which the loop of lines 209-236 draws
  them: one per iteration, as long as the draws succeed. The candidate of an iteration
  does not depend on \<open>maxPoints\<close>, \<^verbatim>\<open>slab\<close> or \<^verbatim>\<open>slab_points\<close>, only on the generator.
\<close>

function ransac_candidates ::
  "('v, 'pl, 'r, 'g) env \<Rightarrow> 'v Point list \<Rightarrow> int \<Rightarrow> 'r \<Rightarrow> ptr list \<Rightarrow> PointKDTree \<Rightarrow> int \<Rightarrow> 'g \<Rightarrow>
   (('v, 'pl, 'r) Slab \<times> ptr list) list" where
  "ransac_candidates E ps num_iters slab_thickness pp kdt i g =
     (if i < num_iters \<and> length pp \<noteq> 0 then
        (case draw3 E pp g of
           Inl f \<Rightarrow> []
         | Inr (k1, k2, k3, g') \<Rightarrow>
             candidate E ps slab_thickness pp kdt (k1, k2, k3) #
               (if i = INT_MAX then []
                else ransac_candidates E ps num_iters slab_thickness pp kdt (i + 1) g'))
      else [])"
  by pat_completeness auto
termination
  by (relation "measure (\<lambda>(E, ps, num_iters, slab_thickness, pp, kdt, i, g). nat (num_iters - i))") auto

declare ransac_candidates.simps [simp del]

text \<open>
  The cloud \<open>pc\<close> with other enabled flags: point \<open>i\<close> gets the flag \<open>f i\<close>. Any state
  of the flags that earlier calls may have left behind has this form.
\<close>

definition with_flags :: "(nat \<Rightarrow> bool) \<Rightarrow> 'v PointCloud \<Rightarrow> 'v PointCloud" where
  "with_flags f pc =
     pc\<lparr>points := map (\<lambda>i. (points pc ! i)\<lparr>enabled := f i\<rparr>) [0..<length (points pc)]\<rparr>"

text \<open>
  What the C++ standard promises of \<^verbatim>\<open>std::uniform_int_distribution<int>(a, b)\<close> when
  \<open>a \<le> b\<close>: every number drawn lies in \<open>[a, b]\<close>.
\<close>

definition uni_in_range :: "('v, 'pl, 'r, 'g) env \<Rightarrow> bool" where
  "uni_in_range E = (\<forall>a b g. a \<le> b \<longrightarrow> a \<le> fst (uni E a b g) \<and> fst (uni E a b g) \<le> b)"

section \<open>Invariants\<close>

text \<open>What holds of the variables of a call between two iterations.\<close>

definition best_so_far ::
  "('v, 'pl, 'r, 'g) env \<Rightarrow> 'v PointCloud \<Rightarrow> 'r \<Rightarrow> int \<Rightarrow> ('v, 'pl, 'r) Slab \<Rightarrow> ptr list \<Rightarrow>
   ('v, 'pl, 'r, 'g) ransac_vars \<Rightarrow> bool" where
  "best_so_far E pc t m slab0 slab_points0 v =
     (cloud v = pc \<and>
      (maxPoints v = 0 \<and> slab v = slab0 \<and> slab_points v = slab_points0 \<or>
       0 < maxPoints v \<and> m < maxPoints v \<and> maxPoints v = int (length (slab_points v)) \<and>
       (\<exists>p1 p2 p3. p1 \<in> set (enabled_ptrs (points pc)) \<and> p2 \<in> set (enabled_ptrs (points pc)) \<and>
          p3 \<in> set (enabled_ptrs (points pc)) \<and>
          slab_points v =
            rangeQuery E (points pc) (PointKDTree (enabled_ptrs (points pc)))
              (Slab (fromThreePoints E (position (points pc ! p1)) (position (points pc ! p2))
                 (position (points pc ! p3))) t) \<and>
          slab v =
            updateCorners E (points pc)
              (Slab (fromThreePoints E (position (points pc ! p1)) (position (points pc ! p2))
                 (position (points pc ! p3))) t) (slab_points v))))"

text \<open>
  What holds of a slab and the inliers that a call of \<^verbatim>\<open>ransac\<close> on the cloud \<open>c\<close>
  hands back with a positive count.
\<close>

definition accepted ::
  "('v, 'pl, 'r, 'g) env \<Rightarrow> 'v PointCloud \<Rightarrow> 'r \<Rightarrow> int \<Rightarrow> ('v, 'pl, 'r) Slab \<Rightarrow> ptr list \<Rightarrow> bool" where
  "accepted E c t m s lp =
     (lp = rangeQuery E (points c) (PointKDTree (enabled_ptrs (points c))) s \<and>
      lp \<noteq> [] \<and> m < int (length lp) \<and> thickness s = t \<and>
      corners s = Some (computeCorners E (plane s) t (map (\<lambda>p. points c ! p) lp)) \<and>
      (\<exists>p1 p2 p3. p1 \<in> set (enabled_ptrs (points c)) \<and> p2 \<in> set (enabled_ptrs (points c)) \<and>
         p3 \<in> set (enabled_ptrs (points c)) \<and>
         plane s = fromThreePoints E (position (points c ! p1)) (position (points c ! p2))
                     (position (points c ! p3))))"

text \<open>
  The cloud as a round of \<^verbatim>\<open>ransacMultiple\<close> finds it: all points enabled, then the
  inliers of the rounds before it disabled.
\<close>

definition round_cloud :: "'v PointCloud \<Rightarrow> ptr list list \<Rightarrow> 'v PointCloud" where
  "round_cloud pc found = disable_all (concat found) (enable_all pc)"

text \<open>What holds of the variables of \<^verbatim>\<open>ransacMultiple\<close> between two rounds.\<close>

definition extract_inv ::
  "('v, 'pl, 'r, 'g) env \<Rightarrow> 'v PointCloud \<Rightarrow> 'r \<Rightarrow> int \<Rightarrow> ('v, 'pl, 'r) extract_vars \<Rightarrow> bool" where
  "extract_inv E pc t m x =
     (length (inliers x) = length (slabs x) \<and>
      xcloud x = round_cloud pc (inliers x) \<and>
      (\<forall>j < length (slabs x).
         accepted E (round_cloud pc (take j (inliers x))) t m (slabs x ! j) (inliers x ! j)))"

section \<open>An instance of the parameters\<close>

text \<open>
  To run the two routines on concrete clouds the parameters are instantiated with
  exact integer geometry. A plane is kept as a normal vector (not normalised), an
  offset and the flag that marks a degenerate fit. The perpendicular distance of \<open>p\<close>
  to the plane is \<open>|n \<cdot> p - d| / |n|\<close>, so it is at most \<open>t / 2\<close> iff \<open>0 \<le> t\<close> and
  \<open>4 (n \<cdot> p - d)\<^sup>2 \<le> t\<^sup>2 (n \<cdot> n)\<close>. A plane flagged degenerate has no inliers (spec 3:
  a collinear sample is treated as zero inliers). The generator is a tape of numbers;
  a draw from \<open>[a, b]\<close> reduces the next number of the tape into the interval.
\<close>

type_synonym vec3 = "int \<times> int \<times> int"

fun vsub :: "vec3 \<Rightarrow> vec3 \<Rightarrow> vec3" where
  "vsub (a1, a2, a3) (b1, b2, b3) = (a1 - b1, a2 - b2, a3 - b3)"

fun dot :: "vec3 \<Rightarrow> vec3 \<Rightarrow> int" where
  "dot (a1, a2, a3) (b1, b2, b3) = a1 * b1 + a2 * b2 + a3 * b3"

fun cross :: "vec3 \<Rightarrow> vec3 \<Rightarrow> vec3" where
  "cross (a1, a2, a3) (b1, b2, b3) = (a2 * b3 - a3 * b2, a3 * b1 - a1 * b3, a1 * b2 - a2 * b1)"


record plane3 =
  nvec :: vec3
  offset :: int
  degenerate :: bool

definition plane_through :: "vec3 \<Rightarrow> vec3 \<Rightarrow> vec3 \<Rightarrow> plane3" where
  "plane_through a b c =
     (let n = cross (vsub b a) (vsub c a)
      in \<lparr>nvec = n, offset = dot n a, degenerate = (n = (0, 0, 0))\<rparr>)"

definition within_slab :: "plane3 \<Rightarrow> int \<Rightarrow> vec3 \<Rightarrow> bool" where
  "within_slab pl t p =
     (\<not> degenerate pl \<and> 0 \<le> t \<and> 4 * (dot (nvec pl) p - offset pl)\<^sup>2 \<le> t\<^sup>2 * dot (nvec pl) (nvec pl))"

definition first_corners :: "plane3 \<Rightarrow> int \<Rightarrow> vec3 Point list \<Rightarrow> vec3 list" where
  "first_corners pl t pts = map position (take 4 pts)"

definition tape_uni :: "int \<Rightarrow> int \<Rightarrow> nat list \<Rightarrow> int \<times> nat list" where
  "tape_uni a b g = (case g of [] \<Rightarrow> (a, []) | x # xs \<Rightarrow> (a + int x mod (b - a + 1), xs))"

definition example_env :: "(vec3, plane3, int, nat list) env" where
  "example_env =
     \<lparr>fromThreePoints = plane_through,
      slabContains = within_slab,
      computeCorners = first_corners,
      uni = tape_uni,
      defaultSlab = \<lparr>plane = \<lparr>nvec = (0, 0, 0), offset = 0, degenerate = True\<rparr>,
                     thickness = 0, corners = None\<rparr>\<rparr>"

definition pt :: "vec3 \<Rightarrow> vec3 Point" where
  "pt p = \<lparr>position = p, normal = (0, 0, 0), enabled = True\<rparr>"

text \<open>Three points of the plane \<open>z = 0\<close>, a fourth one of it, and one far off it.\<close>

definition example_cloud :: "vec3 PointCloud" where
  "example_cloud =
     \<lparr>points = [pt (0, 0, 0), pt (1, 0, 0), pt (0, 1, 0), pt (1, 1, 0), pt (0, 0, 5)],
      bbox = Some ((0, 0, 0), (1, 1, 5))\<rparr>"

definition disabled_cloud :: "vec3 PointCloud" where
  "disabled_cloud = \<lparr>points = [(pt (0, 0, 0))\<lparr>enabled := False\<rparr>, (pt (1, 0, 0))\<lparr>enabled := False\<rparr>],
                     bbox = Some ((0, 0, 0), (1, 0, 0))\<rparr>"

definition empty_cloud :: "vec3 PointCloud" where
  "empty_cloud = \<lparr>points = [], bbox = None\<rparr>"

text \<open>
  The slab \<open>z = 0\<close> of thickness 1, with its corners, as the search on the example
  cloud finds it.
\<close>

definition example_slab :: "(vec3, plane3, int) Slab" where
  "example_slab =
     \<lparr>plane = \<lparr>nvec = (0, 0, 1), offset = 0, degenerate = False\<rparr>, thickness = 1,
      corners = Some [(0, 0, 0), (1, 0, 0), (0, 1, 0), (1, 1, 0)]\<rparr>"

text \<open>The variables of a call on the example cloud before and after one iteration.\<close>

definition example_vars0 :: "(vec3, plane3, int, nat list) ransac_vars" where
  "example_vars0 =
     \<lparr>cloud = example_cloud, rng = [0, 1, 2], maxPoints = 0,
      slab = defaultSlab example_env, slab_points = []\<rparr>"

definition example_vars1 :: "(vec3, plane3, int, nat list) ransac_vars" where
  "example_vars1 =
     \<lparr>cloud = example_cloud, rng = [], maxPoints = 4, slab = example_slab,
      slab_points = [0, 1, 2, 3]\<rparr>"

text \<open>
  A cloud with four points of the plane \<open>z = 0\<close> and three of the plane \<open>z = 7\<close>, some
  of them disabled by an earlier search, and what \<^verbatim>\<open>ransacMultiple\<close> makes of it.
\<close>

definition two_planes :: "vec3 PointCloud" where
  "two_planes =
     \<lparr>points = [pt (0, 0, 0), (pt (1, 0, 0))\<lparr>enabled := False\<rparr>, pt (0, 1, 0), pt (1, 1, 0),
                (pt (0, 0, 7))\<lparr>enabled := False\<rparr>, pt (1, 0, 7), pt (0, 1, 7)],
      bbox = Some ((0, 0, 0), (1, 1, 7))\<rparr>"

definition upper_slab :: "(vec3, plane3, int) Slab" where
  "upper_slab =
     \<lparr>plane = \<lparr>nvec = (0, 0, 1), offset = 7, degenerate = False\<rparr>, thickness = 1,
      corners = Some [(0, 0, 7), (1, 0, 7), (0, 1, 7)]\<rparr>"

definition two_planes_found :: "(vec3, plane3, int) extract_vars" where
  "two_planes_found =
     \<lparr>xcloud = two_planes\<lparr>points := map (\<lambda>p. p\<lparr>enabled := False\<rparr>) (points two_planes)\<rparr>,
      slabs = [example_slab, upper_slab],
      inliers = [[0, 1, 2, 3], [4, 5, 6]],
      returns = [4, 3, 0]\<rparr>"

text \<open>A cloud of \<open>2\<^sup>3\<^sup>1 + 1\<close> enabled points.\<close>

definition big_cloud :: "vec3 PointCloud" where
  "big_cloud = \<lparr>points = replicate (2 ^ 31 + 1) (pt (0, 0, 0)), bbox = Some ((0, 0, 0), (0, 0, 0))\<rparr>"

text \<open>
  A tape for three iterations on the example cloud: the same point three times, then
  the plane \<open>z = 0\<close> through points 0, 1, 2, then once more through points 0, 2, 1,
  which gives the opposite normal.
\<close>

definition example_tape :: "nat list" where
  "example_tape = [1, 1, 1, 0, 1, 2, 0, 2, 1]"

definition example_candidates :: "((vec3, plane3, int) Slab \<times> ptr list) list" where
  "example_candidates =
     [(Slab \<lparr>nvec = (0, 0, 0), offset = 0, degenerate = True\<rparr> 1, []),
      (Slab \<lparr>nvec = (0, 0, 1), offset = 0, degenerate = False\<rparr> 1, [0, 1, 2, 3]),
      (Slab \<lparr>nvec = (0, 0, - 1), offset = 0, degenerate = False\<rparr> 1, [0, 1, 2, 3])]"

text \<open>
  The slab that a search on \<open>two_planes\<close> as it stands, point 1 disabled, finds through
  points 0, 2 and 3.
\<close>

definition lower_slab :: "(vec3, plane3, int) Slab" where
  "lower_slab =
     \<lparr>plane = \<lparr>nvec = (0, 0, - 1), offset = 0, degenerate = False\<rparr>, thickness = 1,
      corners = Some [(0, 0, 0), (0, 1, 0), (1, 1, 0)]\<rparr>"






section \<open>Basic facts\<close>

lemma enabled_ptrs_bound: "p \<in> set (enabled_ptrs ps) \<Longrightarrow> p < length ps"
  by (auto simp: enabled_ptrs_def)

lemma rangeQuery_subset: "set (rangeQuery E ps kdt s) \<subseteq> set kdt"
  by (auto simp: rangeQuery_def)

lemma rangeQuery_updateCorners:
  "rangeQuery E ps kdt (updateCorners E ps' s pts) = rangeQuery E ps kdt s"
  by (simp add: rangeQuery_def updateCorners_def)

lemma distinct_enabled_ptrs: "distinct (enabled_ptrs ps)"
  by (simp add: enabled_ptrs_def)

lemma distinct_rangeQuery: "distinct kdt \<Longrightarrow> distinct (rangeQuery E ps kdt s)"
  by (simp add: rangeQuery_def)

lemma enabled_ptrs_enabled: "p \<in> set (enabled_ptrs ps) \<Longrightarrow> enabled (ps ! p)"
  by (auto simp: enabled_ptrs_def)

lemma draw3_Inr:
  assumes "draw3 E pp g = Inr (k1, k2, k3, g')"
  shows "0 \<le> k1 \<and> k1 < int (length pp) \<and> 0 \<le> k2 \<and> k2 < int (length pp) \<and>
         0 \<le> k3 \<and> k3 < int (length pp)"
  using assms
  by (auto simp: draw3_def Let_def split: if_splits prod.splits)

lemma ransac_iter_Inr:
  assumes "ransac_iter E t m pp kdt v = Inr v'"
  obtains k1 k2 k3 g' where
    "draw3 E pp (rng v) = Inr (k1, k2, k3, g')"
    "v' = record_best E m (fst (candidate E (points (cloud v)) t pp kdt (k1, k2, k3)))
            (snd (candidate E (points (cloud v)) t pp kdt (k1, k2, k3))) (v\<lparr>rng := g'\<rparr>)"
  using assms
  by (auto simp: ransac_iter_def split: sum.splits prod.splits)

section \<open>The loop of ransac\<close>

lemma ransac_loop_rule:
  assumes "ransac_loop E n t m pp kdt i v = Inr (k, v')"
    and "P v"
    and "\<And>u u'. P u \<Longrightarrow> pp \<noteq> [] \<Longrightarrow> ransac_iter E t m pp kdt u = Inr u' \<Longrightarrow> P u'"
  shows "P v' \<and> (k = maxPoints v' \<or> (pp = [] \<and> k = 0 \<and> v' = v))"
  using assms
proof (induction E n t m pp kdt i v rule: ransac_loop.induct)
  case (1 E num_iters slab_thickness min_points pp kdt i v)
  show ?case
  proof (cases "i < num_iters")
    case False
    with "1.prems" show ?thesis by (auto simp: ransac_loop.simps[of _ _ _ _ _ _ i])
  next
    case True
    note lt = this
    show ?thesis
    proof (cases "pp = []")
      case True
      with lt "1.prems" show ?thesis by (auto simp: ransac_loop.simps[of _ _ _ _ _ _ i])
    next
      case False
      with lt "1.prems"(1) obtain u where
        it: "ransac_iter E slab_thickness min_points pp kdt v = Inr u"
        and ni: "i \<noteq> INT_MAX"
        and rest: "ransac_loop E num_iters slab_thickness min_points pp kdt (i + 1) u = Inr (k, v')"
        by (auto simp: ransac_loop.simps[of _ _ _ _ _ _ i] split: sum.splits if_splits)
      have Pu: "P u" using "1.prems"(2,3) False it by blast
      have "P v' \<and> (k = maxPoints v' \<or> (pp = [] \<and> k = 0 \<and> v' = u))"
        using "1.IH"[OF lt _ it ni rest Pu] False "1.prems"(3) by simp
      with False show ?thesis by simp
    qed
  qed
qed

lemma record_best_accept:
  "m < int (length lp) \<Longrightarrow> maxPoints v < int (length lp) \<Longrightarrow>
   record_best E m ls lp v =
     v\<lparr>maxPoints := int (length lp), slab := updateCorners E (points (cloud v)) ls lp,
       slab_points := lp\<rparr>"
  by (simp add: record_best_def Let_def)

lemma record_best_reject:
  "\<not> (m < int (length lp) \<and> maxPoints v < int (length lp)) \<Longrightarrow> record_best E m ls lp v = v"
  by (auto simp: record_best_def Let_def)

lemma best_so_far_iter:
  assumes inv: "best_so_far E pc t m slab0 slab_points0 u"
    and it: "ransac_iter E t m (enabled_ptrs (points pc)) (PointKDTree (enabled_ptrs (points pc))) u = Inr u'"
  shows "best_so_far E pc t m slab0 slab_points0 u'"
proof -
  let ?pp = "enabled_ptrs (points pc)"
  have c: "cloud u = pc" using inv by (simp add: best_so_far_def)
  from it obtain k1 k2 k3 g' where
    d: "draw3 E ?pp (rng u) = Inr (k1, k2, k3, g')" and
    u': "u' = record_best E m (fst (candidate E (points (cloud u)) t ?pp (PointKDTree ?pp) (k1, k2, k3)))
            (snd (candidate E (points (cloud u)) t ?pp (PointKDTree ?pp) (k1, k2, k3))) (u\<lparr>rng := g'\<rparr>)"
    by (rule ransac_iter_Inr)
  let ?ls = "Slab (fromThreePoints E (position (points pc ! (?pp ! nat k1)))
                (position (points pc ! (?pp ! nat k2))) (position (points pc ! (?pp ! nat k3)))) t"
  let ?lp = "rangeQuery E (points pc) (PointKDTree ?pp) ?ls"
  have u'': "u' = record_best E m ?ls ?lp (u\<lparr>rng := g'\<rparr>)"
    unfolding u' c by (simp add: candidate_def Let_def)
  from draw3_Inr[OF d] have mem:
    "?pp ! nat k1 \<in> set ?pp" "?pp ! nat k2 \<in> set ?pp" "?pp ! nat k3 \<in> set ?pp"
    by (auto intro!: nth_mem)
  have nonneg: "0 \<le> maxPoints u" using inv by (auto simp: best_so_far_def)
  show ?thesis
  proof (cases "int (length ?lp) > m \<and> int (length ?lp) > maxPoints u")
    case False
    then have "u' = u\<lparr>rng := g'\<rparr>" unfolding u'' by (simp add: record_best_reject)
    with inv show ?thesis by (simp add: best_so_far_def)
  next
    case True
    then have eq: "u' = u\<lparr>rng := g', maxPoints := int (length ?lp),
                          slab := updateCorners E (points pc) ?ls ?lp, slab_points := ?lp\<rparr>"
      unfolding u'' by (simp add: record_best_accept c)
    from True nonneg have pos: "0 < int (length ?lp)" by linarith
    have "cloud u' = pc" "0 < maxPoints u'" "m < maxPoints u'"
      "maxPoints u' = int (length (slab_points u'))" "slab_points u' = ?lp"
      "slab u' = updateCorners E (points pc) ?ls (slab_points u')"
      using True pos c unfolding eq by simp_all
    with mem show ?thesis unfolding best_so_far_def by blast
  qed
qed

lemma ransac_best_so_far:
  assumes "ransac E pc g n t m slab0 slab_points0 = Inr (k, v)"
  shows "best_so_far E pc t m slab0 slab_points0 v \<and> k = maxPoints v"
proof -
  let ?pp = "enabled_ptrs (points pc)"
  let ?v0 = "\<lparr>cloud = pc, rng = g, maxPoints = 0, slab = slab0, slab_points = slab_points0\<rparr>"
  have loop: "ransac_loop E n t m ?pp (PointKDTree ?pp) 0 ?v0 = Inr (k, v)"
    using assms by (simp add: ransac_def Let_def)
  have init: "best_so_far E pc t m slab0 slab_points0 ?v0"
    by (simp add: best_so_far_def)
  have "best_so_far E pc t m slab0 slab_points0 v \<and>
        (k = maxPoints v \<or> (?pp = [] \<and> k = 0 \<and> v = ?v0))"
    by (rule ransac_loop_rule[where P = "best_so_far E pc t m slab0 slab_points0", OF loop init])
       (rule best_so_far_iter)
  then show ?thesis by auto
qed

section \<open>Enabling and disabling points\<close>

lemma disable_fold_length:
  "length (foldl (\<lambda>ps p. ps[p := (ps ! p)\<lparr>enabled := False\<rparr>]) ps pts) = length ps"
  by (induction pts arbitrary: ps) simp_all

lemma disable_fold_nth:
  "i < length ps \<Longrightarrow>
   foldl (\<lambda>ps p. ps[p := (ps ! p)\<lparr>enabled := False\<rparr>]) ps pts ! i =
     (if i \<in> set pts then (ps ! i)\<lparr>enabled := False\<rparr> else ps ! i)"
proof (induction pts arbitrary: ps)
  case Nil
  then show ?case by simp
next
  case (Cons p pts)
  then show ?case by (cases "i = p") (simp_all add: nth_list_update)
qed

lemma length_disable_all [simp]: "length (points (disable_all pts pc)) = length (points pc)"
  by (simp add: disable_all_def disable_fold_length)

lemma nth_disable_all:
  "i < length (points pc) \<Longrightarrow>
   points (disable_all pts pc) ! i =
     (if i \<in> set pts then (points pc ! i)\<lparr>enabled := False\<rparr> else points pc ! i)"
  by (simp add: disable_all_def disable_fold_nth)

lemma bbox_disable_all [simp]: "bbox (disable_all pts pc) = bbox pc"
  by (simp add: disable_all_def)

lemma position_disable_all:
  "i < length (points pc) \<Longrightarrow> position (points (disable_all pts pc) ! i) = position (points pc ! i)"
  by (simp add: nth_disable_all)

lemma disable_all_append: "disable_all (a @ b) pc = disable_all b (disable_all a pc)"
  by (simp add: disable_all_def)

lemma disable_all_Nil [simp]: "disable_all [] pc = pc"
  by (simp add: disable_all_def)

lemma enabled_ptrs_disable_all:
  "enabled_ptrs (points (disable_all pts pc)) = filter (\<lambda>i. i \<notin> set pts) (enabled_ptrs (points pc))"
  by (auto simp: enabled_ptrs_def nth_disable_all intro!: filter_cong split: if_splits)

lemma length_enable_all [simp]: "length (points (enable_all pc)) = length (points pc)"
  by (simp add: enable_all_def)

lemma enabled_ptrs_enable_all: "enabled_ptrs (points (enable_all pc)) = [0..<length (points pc)]"
  by (auto simp: enabled_ptrs_def enable_all_def intro!: filter_True)

section \<open>What ransac returns\<close>

lemma ransac_accepted:
  assumes r: "ransac E c g n t m slab0 slab_points0 = Inr (k, v)" and pos: "0 < k"
  shows "cloud v = c \<and> k = int (length (slab_points v)) \<and> accepted E c t m (slab v) (slab_points v)"
proof -
  from ransac_best_so_far[OF r] have b: "best_so_far E c t m slab0 slab_points0 v" and k: "k = maxPoints v"
    by simp_all
  let ?pp = "enabled_ptrs (points c)"
  from b pos k obtain p1 p2 p3 where
    c: "cloud v = c" and m: "m < maxPoints v" and len: "maxPoints v = int (length (slab_points v))"
    and mem: "p1 \<in> set ?pp" "p2 \<in> set ?pp" "p3 \<in> set ?pp"
    and sp: "slab_points v = rangeQuery E (points c) (PointKDTree ?pp)
              (Slab (fromThreePoints E (position (points c ! p1)) (position (points c ! p2))
                 (position (points c ! p3))) t)"
    and sl: "slab v = updateCorners E (points c)
              (Slab (fromThreePoints E (position (points c ! p1)) (position (points c ! p2))
                 (position (points c ! p3))) t) (slab_points v)"
    unfolding best_so_far_def by auto
  have q: "slab_points v = rangeQuery E (points c) (PointKDTree ?pp) (slab v)"
    by (subst sl, subst rangeQuery_updateCorners) (rule sp)
  have ne: "slab_points v \<noteq> []" using pos k len by auto
  have th: "thickness (slab v) = t" by (subst sl) (simp add: updateCorners_def Slab_def)
  have pl: "plane (slab v) = fromThreePoints E (position (points c ! p1)) (position (points c ! p2))
                 (position (points c ! p3))"
    by (subst sl) (simp add: updateCorners_def Slab_def)
  have co: "corners (slab v) = Some (computeCorners E (plane (slab v)) t (map (\<lambda>p. points c ! p) (slab_points v)))"
    unfolding pl by (subst sl) (simp add: updateCorners_def Slab_def)
  show ?thesis
    unfolding accepted_def using c k len m q ne th pl co mem by auto
qed

lemma ransac_zero:
  assumes r: "ransac E c g n t m slab0 slab_points0 = Inr (k, v)" and npos: "k \<le> 0"
  shows "cloud v = c \<and> k = 0 \<and> slab v = slab0 \<and> slab_points v = slab_points0"
  using ransac_best_so_far[OF r] npos by (auto simp: best_so_far_def)

section \<open>The loop of ransacMultiple\<close>

lemma ransacMultiple_loop_rule:
  assumes "ransacMultiple_loop E seed N n t m i x = Inr x'"
    and "Q i x"
    and step: "\<And>j y k v. Q j y \<Longrightarrow> j < N \<Longrightarrow>
            ransac E (xcloud y) (seed j) n t m (defaultSlab E) [] = Inr (k, v) \<Longrightarrow> 0 < k \<Longrightarrow>
            Q (j + 1) (y\<lparr>xcloud := disable_all (slab_points v) (cloud v),
                         slabs := slabs y @ [slab v],
                         inliers := inliers y @ [slab_points v],
                         returns := returns y @ [k]\<rparr>)"
    and brk: "\<And>j y k v. Q j y \<Longrightarrow> j < N \<Longrightarrow>
            ransac E (xcloud y) (seed j) n t m (defaultSlab E) [] = Inr (k, v) \<Longrightarrow> k \<le> 0 \<Longrightarrow>
            R (y\<lparr>xcloud := cloud v, returns := returns y @ [k]\<rparr>)"
    and fin: "\<And>j y. Q j y \<Longrightarrow> \<not> j < N \<Longrightarrow> R y"
  shows "R x'"
  using assms
proof (induction E seed N n t m i x rule: ransacMultiple_loop.induct)
  case (1 E seed num_planes num_iters slab_thickness min_points i x)
  note Qx = "1.prems"(2) and step = "1.prems"(3) and brk = "1.prems"(4) and fin = "1.prems"(5)
  show ?case
  proof (cases "i < num_planes")
    case False
    with "1.prems"(1) have "x' = x" by (simp add: ransacMultiple_loop.simps[of _ _ _ _ _ _ i])
    with fin[OF Qx False] show ?thesis by simp
  next
    case True
    with "1.prems"(1) obtain k v where
      r: "ransac E (xcloud x) (seed i) num_iters slab_thickness min_points (defaultSlab E) [] = Inr (k, v)"
      by (auto simp: ransacMultiple_loop.simps[of _ _ _ _ _ _ i] split: sum.splits)
    show ?thesis
    proof (cases "k \<le> 0")
      case True
      with \<open>i < num_planes\<close> r "1.prems"(1)
      have "x' = x\<lparr>xcloud := cloud v, returns := returns x @ [k]\<rparr>"
        by (simp add: ransacMultiple_loop.simps[of _ _ _ _ _ _ i])
      with brk[OF Qx \<open>i < num_planes\<close> r True] show ?thesis by simp
    next
      case False
      let ?y = "x\<lparr>xcloud := disable_all (slab_points v) (cloud v),
                         slabs := slabs x @ [slab v],
                         inliers := inliers x @ [slab_points v],
                         returns := returns x @ [k]\<rparr>"
      from False \<open>i < num_planes\<close> r "1.prems"(1)
      have rest: "ransacMultiple_loop E seed num_planes num_iters slab_thickness min_points (i + 1) ?y = Inr x'"
        by (simp add: ransacMultiple_loop.simps[of _ _ _ _ _ _ i])
      have Qy: "Q (i + 1) ?y" using step[OF Qx \<open>i < num_planes\<close> r] False by simp
      show ?thesis
        by (rule "1.IH"[OF \<open>i < num_planes\<close> r refl False rest Qy step brk fin])
    qed
  qed
qed

lemma round_cloud_Nil [simp]: "round_cloud pc [] = enable_all pc"
  by (simp add: round_cloud_def)

lemma round_cloud_snoc: "round_cloud pc (found @ [lp]) = disable_all lp (round_cloud pc found)"
  by (simp add: round_cloud_def disable_all_append)

lemma extract_inv_init:
  "extract_inv E pc t m \<lparr>xcloud = enable_all pc, slabs = [], inliers = [], returns = []\<rparr>"
  by (simp add: extract_inv_def)

lemma extract_inv_step:
  assumes inv: "extract_inv E pc t m y"
    and acc: "accepted E (xcloud y) t m s lp"
  shows "extract_inv E pc t m
           (y\<lparr>xcloud := disable_all lp (xcloud y), slabs := slabs y @ [s],
              inliers := inliers y @ [lp], returns := rs\<rparr>)"
proof -
  from inv have len: "length (inliers y) = length (slabs y)"
    and xc: "xcloud y = round_cloud pc (inliers y)"
    and old: "\<And>j. j < length (slabs y) \<Longrightarrow>
               accepted E (round_cloud pc (take j (inliers y))) t m (slabs y ! j) (inliers y ! j)"
    by (simp_all add: extract_inv_def)
  have "accepted E (round_cloud pc (take j (inliers y @ [lp]))) t m
          ((slabs y @ [s]) ! j) ((inliers y @ [lp]) ! j)"
    if "j < length (slabs y @ [s])" for j
  proof (cases "j < length (slabs y)")
    case True
    with old[OF True] len show ?thesis by (simp add: nth_append)
  next
    case False
    with that have "j = length (slabs y)" by simp
    with acc xc len show ?thesis by (simp add: nth_append)
  qed
  then show ?thesis
    using len xc by (simp add: extract_inv_def round_cloud_snoc)
qed

lemma extract_step_case:
  assumes j: "j = int (length (slabs y))" and le: "j \<le> max N 0"
    and inv: "extract_inv E pc t m y"
    and ret: "returns y = map (\<lambda>lp. int (length lp)) (inliers y)"
    and lt: "j < N"
    and rr: "ransac E (xcloud y) g n t m slab0 slab_points0 = Inr (k, v)" and pos: "0 < k"
  defines "y' \<equiv> y\<lparr>xcloud := disable_all (slab_points v) (cloud v),
                         slabs := slabs y @ [slab v],
                         inliers := inliers y @ [slab_points v],
                         returns := returns y @ [k]\<rparr>"
  shows "j + 1 = int (length (slabs y'))" "j + 1 \<le> max N 0" "extract_inv E pc t m y'"
    "returns y' = map (\<lambda>lp. int (length lp)) (inliers y')"
proof -
  from ransac_accepted[OF rr pos] have c: "cloud v = xcloud y"
    and k: "k = int (length (slab_points v))"
    and acc: "accepted E (xcloud y) t m (slab v) (slab_points v)" by simp_all
  show "j + 1 = int (length (slabs y'))" using j by (simp add: y'_def)
  show "j + 1 \<le> max N 0" using lt by simp
  show "extract_inv E pc t m y'"
    unfolding y'_def c by (rule extract_inv_step[OF inv acc])
  show "returns y' = map (\<lambda>lp. int (length lp)) (inliers y')"
    using ret k by (simp add: y'_def)
qed

lemma extract_break_case:
  assumes j: "j = int (length (slabs y))"
    and inv: "extract_inv E pc t m y"
    and ret: "returns y = map (\<lambda>lp. int (length lp)) (inliers y)"
    and lt: "j < N"
    and rr: "ransac E (xcloud y) (seed j) n t m slab0 slab_points0 = Inr (k, v)" and np: "k \<le> 0"
  defines "y' \<equiv> y\<lparr>xcloud := cloud v, returns := returns y @ [k]\<rparr>"
  shows "extract_inv E pc t m y'" "int (length (slabs y')) < N"
    "returns y' = map (\<lambda>lp. int (length lp)) (inliers y') @ [0]"
    "ransac E (xcloud y') (seed (int (length (slabs y')))) n t m slab0 slab_points0 = Inr (0, v)"
proof -
  from ransac_zero[OF rr np] have c: "cloud v = xcloud y" and k: "k = 0" by simp_all
  have y': "y' = y\<lparr>returns := returns y @ [0]\<rparr>" unfolding y'_def c k by simp
  show "extract_inv E pc t m y'" using inv unfolding y' by (simp add: extract_inv_def)
  show "int (length (slabs y')) < N" using j lt unfolding y' by simp
  show "returns y' = map (\<lambda>lp. int (length lp)) (inliers y') @ [0]" using ret unfolding y' by simp
  show "ransac E (xcloud y') (seed (int (length (slabs y')))) n t m slab0 slab_points0 = Inr (0, v)"
    using rr j k unfolding y' by simp
qed

lemma ransacMultiple_inv:
  assumes r: "ransacMultiple E seed pc N n t m slabs0 = Inr (k, x)"
  shows "k = int (length (slabs x)) \<and> extract_inv E pc t m x \<and>
         (k = max N 0 \<and> returns x = map (\<lambda>lp. int (length lp)) (inliers x) \<or>
          k < N \<and> returns x = map (\<lambda>lp. int (length lp)) (inliers x) @ [0] \<and>
            (\<exists>v. ransac E (xcloud x) (seed k) n t m (defaultSlab E) [] = Inr (0, v)))"
proof -
  let ?x1 = "\<lparr>xcloud = enable_all pc, slabs = [], inliers = [], returns = []\<rparr>"
  let ?Q = "\<lambda>j y. j = int (length (slabs y)) \<and> j \<le> max N 0 \<and> extract_inv E pc t m y \<and>
                  returns y = map (\<lambda>lp. int (length lp)) (inliers y)"
  let ?R = "\<lambda>y. extract_inv E pc t m y \<and>
         (int (length (slabs y)) = max N 0 \<and> returns y = map (\<lambda>lp. int (length lp)) (inliers y) \<or>
          int (length (slabs y)) < N \<and> returns y = map (\<lambda>lp. int (length lp)) (inliers y) @ [0] \<and>
            (\<exists>v. ransac E (xcloud y) (seed (int (length (slabs y)))) n t m (defaultSlab E) [] = Inr (0, v)))"
  from r have loop: "ransacMultiple_loop E seed N n t m 0 ?x1 = Inr x" and k: "k = int (length (slabs x))"
    by (auto simp: ransacMultiple_def Let_def split: sum.splits)
  have "?R x"
  proof (rule ransacMultiple_loop_rule[where Q = ?Q and R = ?R, OF loop])
    show "?Q 0 ?x1" by (simp add: extract_inv_init)
  next
    fix j y k' v
    assume Q: "?Q j y" and lt: "j < N"
      and rr: "ransac E (xcloud y) (seed j) n t m (defaultSlab E) [] = Inr (k', v)" and pos: "0 < k'"
    from Q have q: "j = int (length (slabs y))" "j \<le> max N 0" "extract_inv E pc t m y"
      "returns y = map (\<lambda>lp. int (length lp)) (inliers y)" by blast+
    from extract_step_case[OF q lt rr pos]
    show "?Q (j + 1) (y\<lparr>xcloud := disable_all (slab_points v) (cloud v),
                         slabs := slabs y @ [slab v],
                         inliers := inliers y @ [slab_points v],
                         returns := returns y @ [k']\<rparr>)"
      by blast
  next
    fix j y k' v
    assume Q: "?Q j y" and lt: "j < N"
      and rr: "ransac E (xcloud y) (seed j) n t m (defaultSlab E) [] = Inr (k', v)" and np: "k' \<le> 0"
    from Q have q: "j = int (length (slabs y))" "extract_inv E pc t m y"
      "returns y = map (\<lambda>lp. int (length lp)) (inliers y)" by blast+
    from extract_break_case[where seed = seed, OF q lt rr np]
    show "?R (y\<lparr>xcloud := cloud v, returns := returns y @ [k']\<rparr>)"
      by blast
  next
    fix j y
    assume Q: "?Q j y" and nlt: "\<not> j < N"
    from Q have q: "j = int (length (slabs y))" "j \<le> max N 0" "extract_inv E pc t m y"
      "returns y = map (\<lambda>lp. int (length lp)) (inliers y)" by blast+
    from q(1,2) nlt have "int (length (slabs y)) = max N 0" by linarith
    with q(3,4) show "?R y" by blast
  qed
  with k show ?thesis by blast
qed

section \<open>Further facts\<close>

lemma ransac_loop_empty:
  "ransac_loop E n t m [] kdt i v = Inr (if i < n then 0 else maxPoints v, v)"
  by (simp add: ransac_loop.simps)

lemma ransac_loop_no_iters:
  "n \<le> i \<Longrightarrow> ransac_loop E n t m pp kdt i v = Inr (maxPoints v, v)"
  by (simp add: ransac_loop.simps)

lemma enable_all_empty: "points pc = [] \<Longrightarrow> enable_all pc = pc"
  by (simp add: enable_all_def)

lemma example_ransac:
  "ransac example_env example_cloud [0, 1, 2] 1 1 2 (defaultSlab example_env) [] =
     Inr (4, \<lparr>cloud = example_cloud, rng = [], maxPoints = 4, slab = example_slab,
              slab_points = [0, 1, 2, 3]\<rparr>)"
  by code_simp

lemma enable_all_with_flags: "enable_all (with_flags f pc) = enable_all pc"
proof -
  have "map (\<lambda>p. p\<lparr>enabled := True\<rparr>)
          (map (\<lambda>i. (points pc ! i)\<lparr>enabled := f i\<rparr>) [0..<length (points pc)]) =
        map (\<lambda>p. p\<lparr>enabled := True\<rparr>) (points pc)"
    by (rule nth_equalityI) simp_all
  then show ?thesis by (simp add: enable_all_def with_flags_def)
qed

lemma enabled_enable_all:
  "map enabled (points (enable_all pc)) = replicate (length (points pc)) True"
  by (rule nth_equalityI) (simp_all add: enable_all_def)

lemma example_ransacMultiple:
  "ransacMultiple example_env (\<lambda>i. [0, 1, 2]) two_planes 5 1 1 2 [upper_slab] =
     Inr (2, two_planes_found)"
  by code_simp

lemma ransacMultiple_slabs0:
  "ransacMultiple E seed pc num_planes num_iters slab_thickness min_points slabs0 =
   ransacMultiple E seed pc num_planes num_iters slab_thickness min_points slabs0'"
  by (simp add: ransacMultiple_def)

lemma enabled_ptrs_round_cloud:
  "set (enabled_ptrs (points (round_cloud pc found))) =
     {i. i < length (points pc) \<and> i \<notin> set (concat found)}"
  by (auto simp: round_cloud_def enabled_ptrs_disable_all enabled_ptrs_enable_all)

lemma enabled_round_cloud:
  "p < length (points pc) \<Longrightarrow>
   enabled (points (round_cloud pc found) ! p) = (p \<notin> set (concat found))"
  by (simp add: round_cloud_def nth_disable_all enable_all_def)

lemma accepted_subset:
  assumes "accepted E c t m s lp"
  shows "set lp \<subseteq> set (enabled_ptrs (points c))"
proof -
  from assms have "lp = rangeQuery E (points c) (PointKDTree (enabled_ptrs (points c))) s"
    by (simp add: accepted_def)
  then have "set lp \<subseteq> set (PointKDTree (enabled_ptrs (points c)))"
    using rangeQuery_subset[of E "points c" "PointKDTree (enabled_ptrs (points c))" s] by simp
  then show ?thesis by (simp add: PointKDTree_def)
qed

lemma extract_inv_round:
  assumes inv: "extract_inv E pc t m x" and a: "a < length (inliers x)" and p: "p \<in> set (inliers x ! a)"
  shows "p < length (points pc)" "p \<notin> set (concat (take a (inliers x)))"
proof -
  from inv a have "accepted E (round_cloud pc (take a (inliers x))) t m (slabs x ! a) (inliers x ! a)"
    by (simp add: extract_inv_def)
  from accepted_subset[OF this] p
  have "p \<in> set (enabled_ptrs (points (round_cloud pc (take a (inliers x)))))" by blast
  then show "p < length (points pc)" "p \<notin> set (concat (take a (inliers x)))"
    by (simp_all add: enabled_ptrs_round_cloud)
qed

lemma nth_in_concat_take:
  assumes "a < b" "b \<le> length xss" "p \<in> set (xss ! a)"
  shows "p \<in> set (concat (take b xss))"
proof -
  from assms have "xss ! a \<in> set (take b xss)"
    by (metis (no_types, lifting) in_set_conv_nth length_take min.absorb2 nth_take order_less_le_trans)
  with assms(3) show ?thesis by auto
qed

lemma ransac_return_value:
  assumes "ransac E pc g num_iters slab_thickness min_points slab0 slab_points0 = Inr (r, v)"
  shows "r = 0 \<or> (0 < r \<and> min_points < r)"
  using ransac_best_so_far[OF assms] by (auto simp: best_so_far_def)

lemma accepted_count: "accepted E c t m s lp \<Longrightarrow> lp \<noteq> [] \<and> m < int (length lp)"
  unfolding accepted_def by blast

lemma extract_inv_counts:
  assumes inv: "extract_inv E pc t m x" and r: "r \<in> set (map (\<lambda>lp. int (length lp)) (inliers x))"
  shows "0 < r \<and> m < r"
proof -
  from r obtain lp where "lp \<in> set (inliers x)" and rl: "r = int (length lp)" by auto
  then obtain j where j: "j < length (inliers x)" and lp: "lp = inliers x ! j"
    by (auto simp: in_set_conv_nth)
  from inv j have "accepted E (round_cloud pc (take j (inliers x))) t m (slabs x ! j) (inliers x ! j)"
    by (simp add: extract_inv_def)
  from accepted_count[OF this] show ?thesis unfolding rl lp by simp
qed

lemma size_minus_one_pos:
  assumes "0 < n" "n \<le> 2 ^ 31"
  shows "size_minus_one n = int n - 1" "to_int32 (size_minus_one n) = int n - 1"
proof -
  from assms have r: "0 \<le> int n - 1" "int n - 1 < 2 ^ 31" by simp_all
  then show a: "size_minus_one n = int n - 1" by (simp add: size_minus_one_def)
  from r have "(int n - 1 + 2 ^ 31) mod 2 ^ 32 = int n - 1 + 2 ^ 31" by simp
  then show "to_int32 (size_minus_one n) = int n - 1" unfolding a to_int32_def by simp
qed

lemma draw3_in_bounds:
  assumes u: "uni_in_range E" and ne: "pp \<noteq> []" and le: "length pp \<le> 2 ^ 31"
  shows "\<exists>k1 k2 k3 g'. draw3 E pp g = Inr (k1, k2, k3, g') \<and>
           0 \<le> k1 \<and> k1 < int (length pp) \<and> 0 \<le> k2 \<and> k2 < int (length pp) \<and>
           0 \<le> k3 \<and> k3 < int (length pp)"
proof -
  let ?hi = "int (length pp) - 1"
  from ne have pos: "0 < length pp" by simp
  have hi: "to_int32 (size_minus_one (length pp)) = ?hi" by (rule size_minus_one_pos(2)[OF pos le])
  have nonneg: "0 \<le> ?hi" using pos by simp
  obtain k1 g1 where d1: "uni E 0 ?hi g = (k1, g1)" by (cases "uni E 0 ?hi g")
  obtain k2 g2 where d2: "uni E 0 ?hi g1 = (k2, g2)" by (cases "uni E 0 ?hi g1")
  obtain k3 g3 where d3: "uni E 0 ?hi g2 = (k3, g3)" by (cases "uni E 0 ?hi g2")
  from u nonneg have r: "\<And>g. 0 \<le> fst (uni E 0 ?hi g) \<and> fst (uni E 0 ?hi g) \<le> ?hi"
    unfolding uni_in_range_def by blast
  from r[of g] d1 have b1: "0 \<le> k1" "k1 < int (length pp)" by simp_all
  from r[of g1] d2 have b2: "0 \<le> k2" "k2 < int (length pp)" by simp_all
  from r[of g2] d3 have b3: "0 \<le> k3" "k3 < int (length pp)" by simp_all
  have "draw3 E pp g = Inr (k1, k2, k3, g3)"
    unfolding draw3_def hi using nonneg d1 d2 d3 b1 b2 b3 by (simp add: Let_def)
  with b1 b2 b3 show ?thesis by blast
qed

lemma ransac_iter_fault:
  "ransac_iter E t m pp kdt v = Inl f \<Longrightarrow> draw3 E pp (rng v) = Inl f"
  by (auto simp: ransac_iter_def split: sum.splits prod.splits)

lemma ransac_loop_fault:
  assumes "ransac_loop E n t m pp kdt i v = Inl f"
    and "\<And>g. pp \<noteq> [] \<Longrightarrow> draw3 E pp g \<noteq> Inl f"
  shows "f = CounterOverflow"
  using assms
proof (induction E n t m pp kdt i v rule: ransac_loop.induct)
  case (1 E num_iters slab_thickness min_points pp kdt i v)
  note eq = "1.prems"(1)[unfolded ransac_loop.simps[of E num_iters slab_thickness min_points pp kdt i v]]
  from eq have lt: "i < num_iters" and ne: "pp \<noteq> []"
    by (auto split: if_splits)
  show ?case
  proof (cases "ransac_iter E slab_thickness min_points pp kdt v")
    case (Inl f')
    with lt ne eq have "f' = f" by simp
    with Inl ransac_iter_fault[of E slab_thickness min_points pp kdt v f] "1.prems"(2)[OF ne]
    show ?thesis by blast
  next
    case (Inr u)
    show ?thesis
    proof (cases "i = INT_MAX")
      case True
      with Inr lt ne eq show ?thesis by simp
    next
      case False
      with Inr lt ne eq
      have rest: "ransac_loop E num_iters slab_thickness min_points pp kdt (i + 1) u = Inl f"
        by simp
      from ne have l: "length pp \<noteq> 0" by simp
      show ?thesis by (rule "1.IH"[OF lt l Inr False rest "1.prems"(2)])
    qed
  qed
qed

lemma tape_uni_in_range: "uni_in_range example_env"
proof -
  have "a \<le> fst (tape_uni a b g) \<and> fst (tape_uni a b g) \<le> b" if "a \<le> b" for a b g
  proof (cases g)
    case Nil
    with that show ?thesis by (simp add: tape_uni_def)
  next
    case (Cons x xs)
    from that have "0 < b - a + 1" by simp
    from pos_mod_sign[OF this, of "int x"] pos_mod_bound[OF this, of "int x"]
    have "a \<le> a + int x mod (b - a + 1)" "a + int x mod (b - a + 1) \<le> b" by linarith+
    with Cons show ?thesis by (simp add: tape_uni_def)
  qed
  then show ?thesis by (simp add: uni_in_range_def example_env_def)
qed

lemma draw3_invalid:
  "to_int32 (size_minus_one (length pp)) < 0 \<Longrightarrow> draw3 E pp g = Inl InvalidDistribution"
  by (simp add: draw3_def)

lemma ransac_invalid:
  assumes "to_int32 (size_minus_one (length (enabled_ptrs (points pc)))) < 0"
    and "0 < num_iters" and "enabled_ptrs (points pc) \<noteq> []"
  shows "ransac E pc g num_iters slab_thickness min_points slab0 slab_points0 = Inl InvalidDistribution"
  using assms
  by (simp add: ransac_def Let_def ransac_loop.simps[of _ _ _ _ _ _ 0] ransac_iter_def draw3_invalid)

lemma length_enabled_ptrs_replicate:
  "enabled p \<Longrightarrow> length (enabled_ptrs (replicate n p)) = n"
  by (simp add: enabled_ptrs_def)

lemma big_cloud_size: "length (enabled_ptrs (points big_cloud)) = 2 ^ 31 + 1"
proof -
  have "points big_cloud = replicate (2 ^ 31 + 1) (pt (0, 0, 0))"
    unfolding big_cloud_def by (simp only: PointCloud.select_convs)
  moreover have "enabled (pt (0, 0, 0))" by (simp add: pt_def)
  ultimately show ?thesis by (simp only: length_enabled_ptrs_replicate)
qed

lemma record_best_cloud [simp]: "cloud (record_best E m ls lp v) = cloud v"
  by (simp add: record_best_def Let_def)

lemma record_best_rng: "record_best E m ls lp (v\<lparr>rng := g\<rparr>) = (record_best E m ls lp v)\<lparr>rng := g\<rparr>"
  by (simp add: record_best_def Let_def)

lemma foldl_record_best_cloud [simp]:
  "cloud (foldl (\<lambda>u c. record_best E m (fst c) (snd c) u) v cs) = cloud v"
  by (induction cs arbitrary: v) simp_all

lemma foldl_record_best_rng:
  "foldl (\<lambda>u c. record_best E m (fst c) (snd c) u) (v\<lparr>rng := g\<rparr>) cs =
   (foldl (\<lambda>u c. record_best E m (fst c) (snd c) u) v cs)\<lparr>rng := g\<rparr>"
  by (induction cs arbitrary: v) (simp_all add: record_best_rng)

lemma ransac_loop_fold:
  assumes "ransac_loop E n t m pp kdt i v = Inr (k, v')" and "pp \<noteq> []"
  shows "k = maxPoints v' \<and>
         v' = (foldl (\<lambda>u c. record_best E m (fst c) (snd c) u) v
                 (ransac_candidates E (points (cloud v)) n t pp kdt i (rng v)))\<lparr>rng := rng v'\<rparr>"
  using assms
proof (induction E n t m pp kdt i v rule: ransac_loop.induct)
  case (1 E num_iters slab_thickness min_points pp kdt i v)
  note eq = "1.prems"(1)[unfolded ransac_loop.simps[of E num_iters slab_thickness min_points pp kdt i v]]
  note ne = "1.prems"(2)
  let ?step = "\<lambda>u c. record_best E min_points (fst c) (snd c) u"
  show ?case
  proof (cases "i < num_iters")
    case False
    with eq have "k = maxPoints v" "v' = v" by auto
    with False show ?thesis
      by (simp add: ransac_candidates.simps[of _ _ _ _ _ _ i])
  next
    case True
    with ne eq obtain u where it: "ransac_iter E slab_thickness min_points pp kdt v = Inr u"
      and ni: "i \<noteq> INT_MAX"
      and rest: "ransac_loop E num_iters slab_thickness min_points pp kdt (i + 1) u = Inr (k, v')"
      by (auto split: sum.splits if_splits)
    from it obtain k1 k2 k3 g' where d: "draw3 E pp (rng v) = Inr (k1, k2, k3, g')"
      and u: "u = record_best E min_points
                (fst (candidate E (points (cloud v)) slab_thickness pp kdt (k1, k2, k3)))
                (snd (candidate E (points (cloud v)) slab_thickness pp kdt (k1, k2, k3))) (v\<lparr>rng := g'\<rparr>)"
      by (rule ransac_iter_Inr)
    let ?c = "candidate E (points (cloud v)) slab_thickness pp kdt (k1, k2, k3)"
    have cu: "cloud u = cloud v" and ru: "rng u = g'" unfolding u by (simp_all add: record_best_rng)
    from ne have l: "length pp \<noteq> 0" by simp
    from "1.IH"[OF True l it ni rest ne]
    have k: "k = maxPoints v'"
      and v': "v' = (foldl ?step u (ransac_candidates E (points (cloud v)) num_iters slab_thickness pp kdt (i + 1) g'))\<lparr>rng := rng v'\<rparr>"
      unfolding cu ru by simp_all
    have cs: "ransac_candidates E (points (cloud v)) num_iters slab_thickness pp kdt i (rng v) =
              ?c # ransac_candidates E (points (cloud v)) num_iters slab_thickness pp kdt (i + 1) g'"
      using True l d ni by (simp add: ransac_candidates.simps[of _ _ _ _ _ _ i])
    have "foldl ?step v (?c # ransac_candidates E (points (cloud v)) num_iters slab_thickness pp kdt (i + 1) g') =
          foldl ?step (record_best E min_points (fst ?c) (snd ?c) v)
            (ransac_candidates E (points (cloud v)) num_iters slab_thickness pp kdt (i + 1) g')"
      by simp
    moreover have "u = (record_best E min_points (fst ?c) (snd ?c) v)\<lparr>rng := g'\<rparr>"
      unfolding u by (rule record_best_rng)
    ultimately have "v' = (foldl ?step v
        (ransac_candidates E (points (cloud v)) num_iters slab_thickness pp kdt i (rng v)))\<lparr>rng := rng v'\<rparr>"
      using v' unfolding cs by (simp add: foldl_record_best_rng)
    with k show ?thesis by simp
  qed
qed

lemma foldl_record_best:
  fixes cs :: "(('v, 'pl, 'r) Slab \<times> ptr list) list"
  defines "count \<equiv> \<lambda>c :: ('v, 'pl, 'r) Slab \<times> ptr list. int (length (snd c))"
  assumes v': "v' = foldl (\<lambda>u c. record_best E m (fst c) (snd c) u) v cs"
  shows "maxPoints v \<le> maxPoints v' \<and>
         (\<forall>j < length cs. count (cs ! j) \<le> m \<or> count (cs ! j) \<le> maxPoints v') \<and>
         (if maxPoints v < maxPoints v'
          then \<exists>j < length cs. count (cs ! j) = maxPoints v' \<and>
                 slab v' = updateCorners E (points (cloud v)) (fst (cs ! j)) (snd (cs ! j)) \<and>
                 slab_points v' = snd (cs ! j) \<and>
                 (\<forall>j' < j. count (cs ! j') < maxPoints v')
          else slab v' = slab v \<and> slab_points v' = slab_points v)"
  using v'
proof (induction cs arbitrary: v' rule: rev_induct)
  case Nil
  then show ?case by simp
next
  case (snoc c cs)
  let ?step = "\<lambda>u c. record_best E m (fst c) (snd c) u"
  define u where "u = foldl ?step v cs"
  from snoc.prems have v': "v' = record_best E m (fst c) (snd c) u" by (simp add: u_def)
  from snoc.IH[OF u_def] have mono: "maxPoints v \<le> maxPoints u"
    and below: "\<And>j. j < length cs \<Longrightarrow> count (cs ! j) \<le> m \<or> count (cs ! j) \<le> maxPoints u"
    and best: "if maxPoints v < maxPoints u
          then \<exists>j < length cs. count (cs ! j) = maxPoints u \<and>
                 slab u = updateCorners E (points (cloud v)) (fst (cs ! j)) (snd (cs ! j)) \<and>
                 slab_points u = snd (cs ! j) \<and>
                 (\<forall>j' < j. count (cs ! j') < maxPoints u)
          else slab u = slab v \<and> slab_points u = slab_points v"
    by blast+
  have cu: "cloud u = cloud v" by (simp add: u_def)
  show ?case
  proof (cases "m < count c \<and> maxPoints u < count c")
    case True
    then have acc: "v' = u\<lparr>maxPoints := count c,
                           slab := updateCorners E (points (cloud v)) (fst c) (snd c),
                           slab_points := snd c\<rparr>"
      unfolding v' count_def by (simp add: record_best_accept cu)
    have mp: "maxPoints v' = count c" unfolding acc by simp
    have 1: "maxPoints v \<le> maxPoints v'" using mono True mp by simp
    have 2: "count ((cs @ [c]) ! j) \<le> m \<or> count ((cs @ [c]) ! j) \<le> maxPoints v'"
      if "j < length (cs @ [c])" for j
    proof (cases "j < length cs")
      case True
      with below[OF True] \<open>m < count c \<and> maxPoints u < count c\<close> mp show ?thesis
        by (auto simp: nth_append)
    next
      case False
      with that have "j = length cs" by simp
      with mp show ?thesis by simp
    qed
    have before: "count ((cs @ [c]) ! j') < maxPoints v'" if "j' < length cs" for j'
      using below[OF that] True mp that by (auto simp: nth_append)
    have 3: "\<exists>j < length (cs @ [c]). count ((cs @ [c]) ! j) = maxPoints v' \<and>
                 slab v' = updateCorners E (points (cloud v)) (fst ((cs @ [c]) ! j)) (snd ((cs @ [c]) ! j)) \<and>
                 slab_points v' = snd ((cs @ [c]) ! j) \<and>
                 (\<forall>j' < j. count ((cs @ [c]) ! j') < maxPoints v')"
    proof (intro exI[of _ "length cs"] conjI allI impI)
      show "length cs < length (cs @ [c])" by simp
      show "count ((cs @ [c]) ! length cs) = maxPoints v'" using mp by simp
      show "slab v' = updateCorners E (points (cloud v)) (fst ((cs @ [c]) ! length cs)) (snd ((cs @ [c]) ! length cs))"
        unfolding acc by simp
      show "slab_points v' = snd ((cs @ [c]) ! length cs)" unfolding acc by simp
      show "count ((cs @ [c]) ! j') < maxPoints v'" if "j' < length cs" for j'
        by (rule before[OF that])
    qed
    from mono True mp have "maxPoints v < maxPoints v'" by simp
    with 1 2 3 show ?thesis by simp
  next
    case False
    then have rej: "v' = u" unfolding v' count_def by (intro record_best_reject) simp
    have 2: "count ((cs @ [c]) ! j) \<le> m \<or> count ((cs @ [c]) ! j) \<le> maxPoints v'"
      if "j < length (cs @ [c])" for j
    proof (cases "j < length cs")
      case True
      with below[OF True] show ?thesis unfolding rej by (simp add: nth_append)
    next
      case False
      with that have "j = length cs" by simp
      with \<open>\<not> (m < count c \<and> maxPoints u < count c)\<close> show ?thesis unfolding rej by auto
    qed
    have 3: "\<exists>j < length (cs @ [c]). count ((cs @ [c]) ! j) = maxPoints v' \<and>
                 slab v' = updateCorners E (points (cloud v)) (fst ((cs @ [c]) ! j)) (snd ((cs @ [c]) ! j)) \<and>
                 slab_points v' = snd ((cs @ [c]) ! j) \<and>
                 (\<forall>j' < j. count ((cs @ [c]) ! j') < maxPoints v')"
      if lt: "maxPoints v < maxPoints v'"
    proof -
      from lt best obtain j where j: "j < length cs" and a: "count (cs ! j) = maxPoints u"
        "slab u = updateCorners E (points (cloud v)) (fst (cs ! j)) (snd (cs ! j))"
        "slab_points u = snd (cs ! j)" and b: "\<forall>j' < j. count (cs ! j') < maxPoints u"
        unfolding rej by auto
      from j b have b': "\<forall>j' < j. count ((cs @ [c]) ! j') < maxPoints u"
        by (simp add: nth_append)
      show ?thesis
        by (rule exI[of _ j]) (use j a b' in \<open>simp add: rej nth_append\<close>)
    qed
    have 4: "slab v' = slab v \<and> slab_points v' = slab_points v" if "\<not> maxPoints v < maxPoints v'"
      using that best unfolding rej by auto
    from mono 2 3 4 show ?thesis unfolding rej by auto
  qed
qed

lemma ransac_candidates_empty: "ransac_candidates E ps n t [] kdt i g = []"
  by (simp add: ransac_candidates.simps)

lemma ransac_first_best:
  assumes r: "ransac E pc g n t m slab0 slab_points0 = Inr (k, w)"
  defines "cs \<equiv> ransac_candidates E (points pc) n t (enabled_ptrs (points pc))
                  (PointKDTree (enabled_ptrs (points pc))) 0 g"
  shows "(\<forall>j < length cs. int (length (snd (cs ! j))) \<le> m \<or> int (length (snd (cs ! j))) \<le> k) \<and>
         (if 0 < k
          then \<exists>j < length cs. int (length (snd (cs ! j))) = k \<and>
                 slab w = updateCorners E (points pc) (fst (cs ! j)) (snd (cs ! j)) \<and>
                 slab_points w = snd (cs ! j) \<and>
                 (\<forall>j' < j. int (length (snd (cs ! j'))) < k)
          else slab w = slab0 \<and> slab_points w = slab_points0)"
proof (cases "enabled_ptrs (points pc) = []")
  case True
  then have "cs = []" by (simp add: cs_def ransac_candidates_empty)
  moreover from True r have "k = 0" "slab w = slab0" "slab_points w = slab_points0"
    by (auto simp: ransac_def Let_def ransac_loop_empty split: if_splits)
  ultimately show ?thesis by simp
next
  case False
  let ?pp = "enabled_ptrs (points pc)"
  let ?v0 = "\<lparr>cloud = pc, rng = g, maxPoints = 0, slab = slab0, slab_points = slab_points0\<rparr>"
  define u where "u = foldl (\<lambda>u c. record_best E m (fst c) (snd c) u) ?v0 cs"
  from r have loop: "ransac_loop E n t m ?pp (PointKDTree ?pp) 0 ?v0 = Inr (k, w)"
    by (simp add: ransac_def Let_def)
  from ransac_loop_fold[OF loop False] have k: "k = maxPoints w" and w: "w = u\<lparr>rng := rng w\<rparr>"
    by (simp_all add: cs_def u_def)
  have sel: "maxPoints w = maxPoints u" "slab w = slab u" "slab_points w = slab_points u"
    by (subst w, simp)+
  note F = foldl_record_best[where E = E and m = m and v = ?v0 and cs = cs, OF u_def,
      unfolded ransac_vars.select_convs]
  from F have below: "\<forall>j < length cs. int (length (snd (cs ! j))) \<le> m \<or> int (length (snd (cs ! j))) \<le> maxPoints u"
    by blast
  from F have best: "if 0 < maxPoints u
          then \<exists>j < length cs. int (length (snd (cs ! j))) = maxPoints u \<and>
                 slab u = updateCorners E (points pc) (fst (cs ! j)) (snd (cs ! j)) \<and>
                 slab_points u = snd (cs ! j) \<and>
                 (\<forall>j' < j. int (length (snd (cs ! j'))) < maxPoints u)
          else slab u = slab0 \<and> slab_points u = slab_points0"
    by blast
  from below best show ?thesis unfolding k sel by blast
qed

lemma ransac_iter_step:
  assumes "ransac_iter E slab_thickness min_points pp kdt v = Inr v'"
  shows "\<exists>k1 k2 k3 g' localSlab localPoints.
           draw3 E pp (rng v) = Inr (k1, k2, k3, g') \<and>
           candidate E (points (cloud v)) slab_thickness pp kdt (k1, k2, k3) = (localSlab, localPoints) \<and>
           rng v' = g' \<and> cloud v' = cloud v \<and>
           (if min_points < int (length localPoints) \<and> maxPoints v < int (length localPoints)
            then maxPoints v' = int (length localPoints) \<and>
                 slab v' = updateCorners E (points (cloud v)) localSlab localPoints \<and>
                 slab_points v' = localPoints
            else maxPoints v' = maxPoints v \<and> slab v' = slab v \<and> slab_points v' = slab_points v)"
proof -
  from assms obtain k1 k2 k3 g' where
    d: "draw3 E pp (rng v) = Inr (k1, k2, k3, g')" and
    v': "v' = record_best E min_points
               (fst (candidate E (points (cloud v)) slab_thickness pp kdt (k1, k2, k3)))
               (snd (candidate E (points (cloud v)) slab_thickness pp kdt (k1, k2, k3)))
               (v\<lparr>rng := g'\<rparr>)"
    by (rule ransac_iter_Inr)
  obtain localSlab localPoints where
    c: "candidate E (points (cloud v)) slab_thickness pp kdt (k1, k2, k3) = (localSlab, localPoints)"
    by (cases "candidate E (points (cloud v)) slab_thickness pp kdt (k1, k2, k3)")
  have v'': "v' = record_best E min_points localSlab localPoints (v\<lparr>rng := g'\<rparr>)"
    unfolding v' c by simp
  have "rng v' = g' \<and> cloud v' = cloud v \<and>
           (if min_points < int (length localPoints) \<and> maxPoints v < int (length localPoints)
            then maxPoints v' = int (length localPoints) \<and>
                 slab v' = updateCorners E (points (cloud v)) localSlab localPoints \<and>
                 slab_points v' = localPoints
            else maxPoints v' = maxPoints v \<and> slab v' = slab v \<and> slab_points v' = slab_points v)"
  proof (cases "min_points < int (length localPoints) \<and> maxPoints v < int (length localPoints)")
    case True
    then show ?thesis unfolding v'' by (simp add: record_best_accept)
  next
    case False
    then have "record_best E min_points localSlab localPoints (v\<lparr>rng := g'\<rparr>) = v\<lparr>rng := g'\<rparr>"
      by (intro record_best_reject) simp
    with False show ?thesis unfolding v'' by simp
  qed
  with d c show ?thesis by blast
qed

lemma example_iter:
  "ransac_iter example_env 1 2 [0, 1, 2, 3, 4] (PointKDTree [0, 1, 2, 3, 4]) example_vars0 =
     Inr example_vars1"
  by code_simp

lemma example_ransac_tie:
  "ransac example_env example_cloud example_tape 3 1 2 (defaultSlab example_env) [] =
     Inr (4, example_vars1)"
  by code_simp

lemma example_ransac_candidates:
  "ransac_candidates example_env (points example_cloud) 3 1 (enabled_ptrs (points example_cloud))
     (PointKDTree (enabled_ptrs (points example_cloud))) 0 example_tape = example_candidates"
  by code_simp

lemma ransac_zero_iff:
  assumes r: "ransac E pc g num_iters slab_thickness min_points slab0 slab_points0 = Inr (r, v)"
  shows "r \<le> 0 \<longleftrightarrow>
         (\<forall>c \<in> set (ransac_candidates E (points pc) num_iters slab_thickness (enabled_ptrs (points pc))
                      (PointKDTree (enabled_ptrs (points pc))) 0 g).
            int (length (snd c)) \<le> max min_points 0)"
proof -
  let ?cs = "ransac_candidates E (points pc) num_iters slab_thickness (enabled_ptrs (points pc))
               (PointKDTree (enabled_ptrs (points pc))) 0 g"
  from ransac_first_best[OF r]
  have below: "\<And>j. j < length ?cs \<Longrightarrow>
                 int (length (snd (?cs ! j))) \<le> min_points \<or> int (length (snd (?cs ! j))) \<le> r"
    and best: "0 < r \<Longrightarrow> \<exists>j < length ?cs. int (length (snd (?cs ! j))) = r"
    by (simp_all split: if_splits) blast
  from ransac_return_value[OF r] have rv: "r = 0 \<or> (0 < r \<and> min_points < r)" .
  show ?thesis
  proof
    assume "r \<le> 0"
    show "\<forall>c \<in> set ?cs. int (length (snd c)) \<le> max min_points 0"
    proof
      fix c assume "c \<in> set ?cs"
      then obtain j where j: "j < length ?cs" and c: "c = ?cs ! j" by (auto simp: in_set_conv_nth)
      from below[OF j] \<open>r \<le> 0\<close> show "int (length (snd c)) \<le> max min_points 0"
        unfolding c by linarith
    qed
  next
    assume all: "\<forall>c \<in> set ?cs. int (length (snd c)) \<le> max min_points 0"
    show "r \<le> 0"
    proof (rule ccontr)
      assume "\<not> r \<le> 0"
      then have pos: "0 < r" by simp
      from best[OF pos] obtain j where j: "j < length ?cs" and e: "int (length (snd (?cs ! j))) = r"
        by blast
      from j have "?cs ! j \<in> set ?cs" by simp
      with all have "int (length (snd (?cs ! j))) \<le> max min_points 0" by blast
      with e rv pos show False by linarith
    qed
  qed
qed

lemma example_ransac_one_candidate:
  "ransac_candidates example_env (points example_cloud) 1 1 (enabled_ptrs (points example_cloud))
     (PointKDTree (enabled_ptrs (points example_cloud))) 0 [1, 1, 1] =
     [(Slab \<lparr>nvec = (0, 0, 0), offset = 0, degenerate = True\<rparr> 1, [])]"
  by code_simp

lemma example_ransacMultiple_negative:
  "ransacMultiple example_env (\<lambda>i. [1, 1, 1]) example_cloud 1 1 1 (- 1) [] =
     Inr (0, \<lparr>xcloud = example_cloud, slabs = [], inliers = [], returns = [0]\<rparr>)"
  by code_simp

section \<open>One index for all iterations\<close>

lemma example_ransac_two_planes:
  "ransac example_env two_planes [0, 1, 2, 3, 4, 0] 2 1 2 (defaultSlab example_env) [] =
     Inr (3, \<lparr>cloud = two_planes, rng = [], maxPoints = 3, slab = lower_slab,
              slab_points = [0, 2, 3]\<rparr>)"
  by code_simp

lemma ransac_candidates_query:
  "c \<in> set (ransac_candidates E ps n t pp kdt i g) \<Longrightarrow> snd c = rangeQuery E ps kdt (fst c)"
proof (induction E ps n t pp kdt i g rule: ransac_candidates.induct)
  case (1 E ps num_iters slab_thickness pp kdt i g)
  note mem = "1.prems"[unfolded ransac_candidates.simps[of E ps num_iters slab_thickness pp kdt i g]]
  show ?case
  proof (cases "i < num_iters \<and> length pp \<noteq> 0")
    case False
    then have "ransac_candidates E ps num_iters slab_thickness pp kdt i g = []"
      by (subst ransac_candidates.simps) auto
    with "1.prems" show ?thesis by simp
  next
    case True
    show ?thesis
    proof (cases "draw3 E pp g")
      case (Inl f)
      with True mem show ?thesis by simp
    next
      case (Inr r)
      obtain k1 k2 k3 g' where r: "r = (k1, k2, k3, g')" by (cases r) auto
      from True mem Inr r
      have "c = candidate E ps slab_thickness pp kdt (k1, k2, k3) \<or>
            (i \<noteq> INT_MAX \<and> c \<in> set (ransac_candidates E ps num_iters slab_thickness pp kdt (i + 1) g'))"
        by (auto split: if_splits)
      then show ?thesis
      proof
        assume "c = candidate E ps slab_thickness pp kdt (k1, k2, k3)"
        then show ?thesis by (simp add: candidate_def Let_def)
      next
        assume a: "i \<noteq> INT_MAX \<and> c \<in> set (ransac_candidates E ps num_iters slab_thickness pp kdt (i + 1) g')"
        from True Inr r a show ?thesis
          by (intro "1.IH"[of r k1 "(k2, k3, g')" k2 "(k3, g')" k3 g']) simp_all
      qed
    qed
  qed
qed

lemma rangeQuery_enabled:
  "rangeQuery E ps (PointKDTree (enabled_ptrs ps)) s =
     filter (\<lambda>p. enabled (ps ! p) \<and> slabContains E (plane s) (thickness s) (position (ps ! p)))
       [0..<length ps]"
  by (simp add: rangeQuery_def PointKDTree_def enabled_ptrs_def conj_commute)

lemma ransac_fold:
  assumes r: "ransac E pc g n t m slab0 slab_points0 = Inr (k, v)"
  shows "v = (foldl (\<lambda>u c. record_best E m (fst c) (snd c) u)
                \<lparr>cloud = pc, rng = g, maxPoints = 0, slab = slab0, slab_points = slab_points0\<rparr>
                (ransac_candidates E (points pc) n t (enabled_ptrs (points pc))
                   (PointKDTree (enabled_ptrs (points pc))) 0 g))\<lparr>rng := rng v\<rparr>"
proof (cases "enabled_ptrs (points pc) = []")
  case True
  let ?v0 = "\<lparr>cloud = pc, rng = g, maxPoints = 0, slab = slab0, slab_points = slab_points0\<rparr>"
  from True have cs: "ransac_candidates E (points pc) n t (enabled_ptrs (points pc))
                   (PointKDTree (enabled_ptrs (points pc))) 0 g = []"
    by (simp add: ransac_candidates_empty)
  from True r have "v = ?v0"
    by (auto simp: ransac_def Let_def ransac_loop_empty ransac_loop.simps[of _ _ _ _ _ _ 0] split: if_splits)
  with cs show ?thesis by simp
next
  case False
  let ?pp = "enabled_ptrs (points pc)"
  let ?v0 = "\<lparr>cloud = pc, rng = g, maxPoints = 0, slab = slab0, slab_points = slab_points0\<rparr>"
  from r have loop: "ransac_loop E n t m ?pp (PointKDTree ?pp) 0 ?v0 = Inr (k, v)"
    by (simp add: ransac_def Let_def)
  from ransac_loop_fold[OF loop False] show ?thesis by simp
qed

lemma example_candidates_two_planes:
  "ransac_candidates example_env (points two_planes) 2 1 (enabled_ptrs (points two_planes))
     (PointKDTree (enabled_ptrs (points two_planes))) 0 [0, 1, 2, 3, 4, 0] =
     [(Slab \<lparr>nvec = (0, 0, - 1), offset = 0, degenerate = False\<rparr> 1, [0, 2, 3]),
      (Slab \<lparr>nvec = (- 7, - 7, 1), offset = 0, degenerate = False\<rparr> 1, [0, 5, 6])]"
  by code_simp

section \<open>Sampling up to the limit of int\<close>

text \<open>
  With no enabled point the loop returns at once. With at least one and at most
  \<open>2\<^sup>3\<^sup>1\<close> of them \<open>size - 1\<close> fits the \<^verbatim>\<open>int\<close> bound of the distribution, and each of
  the three numbers drawn indexes the array.
\<close>

lemma draws_in_bounds:
  "(pp = [] \<and> i < num_iters \<longrightarrow>
      ransac_loop E num_iters slab_thickness min_points pp kdt i v = Inr (0, v)) \<and>
   (uni_in_range E \<and> pp \<noteq> [] \<and> length pp \<le> 2 ^ 31 \<longrightarrow>
      size_minus_one (length pp) = int (length pp) - 1 \<and>
      to_int32 (size_minus_one (length pp)) = int (length pp) - 1 \<and>
      (\<exists>k1 k2 k3 g'. draw3 E pp g = Inr (k1, k2, k3, g') \<and>
         0 \<le> k1 \<and> k1 < int (length pp) \<and> 0 \<le> k2 \<and> k2 < int (length pp) \<and>
         0 \<le> k3 \<and> k3 < int (length pp))) \<and>
   (uni_in_range E \<and> length (enabled_ptrs (points pc)) \<le> 2 ^ 31 \<longrightarrow>
      ransac E pc g num_iters slab_thickness min_points slab0 slab_points0 \<noteq> Inl IndexOutOfRange \<and>
      ransac E pc g num_iters slab_thickness min_points slab0 slab_points0 \<noteq> Inl InvalidDistribution)"
proof (intro conjI impI)
  assume "pp = [] \<and> i < num_iters"
  then show "ransac_loop E num_iters slab_thickness min_points pp kdt i v = Inr (0, v)"
    by (simp add: ransac_loop_empty)
next
  assume a: "uni_in_range E \<and> pp \<noteq> [] \<and> length pp \<le> 2 ^ 31"
  then have pos: "0 < length pp" by simp
  from a size_minus_one_pos[OF pos]
  show "size_minus_one (length pp) = int (length pp) - 1"
    "to_int32 (size_minus_one (length pp)) = int (length pp) - 1" by simp_all
  from a show "\<exists>k1 k2 k3 g'. draw3 E pp g = Inr (k1, k2, k3, g') \<and>
         0 \<le> k1 \<and> k1 < int (length pp) \<and> 0 \<le> k2 \<and> k2 < int (length pp) \<and>
         0 \<le> k3 \<and> k3 < int (length pp)"
    by (intro draw3_in_bounds) simp_all
next
  assume a: "uni_in_range E \<and> length (enabled_ptrs (points pc)) \<le> 2 ^ 31"
  let ?pp = "enabled_ptrs (points pc)"
  have no: "f = CounterOverflow"
    if "ransac E pc g num_iters slab_thickness min_points slab0 slab_points0 = Inl f" for f
  proof -
    from that have l: "ransac_loop E num_iters slab_thickness min_points ?pp (PointKDTree ?pp) 0
        \<lparr>cloud = pc, rng = g, maxPoints = 0, slab = slab0, slab_points = slab_points0\<rparr> = Inl f"
      by (simp add: ransac_def Let_def)
    have "draw3 E ?pp g' \<noteq> Inl f" if "?pp \<noteq> []" for g'
      using draw3_in_bounds[of E ?pp g'] a that by auto
    from ransac_loop_fault[OF l this] show ?thesis .
  qed
  from no[of IndexOutOfRange]
  show "ransac E pc g num_iters slab_thickness min_points slab0 slab_points0 \<noteq> Inl IndexOutOfRange"
    by auto
  from no[of InvalidDistribution]
  show "ransac E pc g num_iters slab_thickness min_points slab0 slab_points0 \<noteq> Inl InvalidDistribution"
    by auto
qed

lemma example_draws_in_bounds:
  "([] :: ptr list) = [] \<and> (0 :: int) < 5 \<and>
   ransac_loop example_env 5 1 2 [] (PointKDTree []) 0 example_vars0 = Inr (0, example_vars0) \<and>
   uni_in_range example_env \<and> [0 :: nat, 1, 2, 3, 4] \<noteq> [] \<and> length [0 :: nat, 1, 2, 3, 4] \<le> 2 ^ 31 \<and>
   size_minus_one (length [0 :: nat, 1, 2, 3, 4]) = 4 \<and>
   (\<exists>k1 k2 k3 g'. draw3 example_env [0, 1, 2, 3, 4] [7, 8, 9] = Inr (k1, k2, k3, g') \<and>
      0 \<le> k1 \<and> k1 < 5 \<and> 0 \<le> k2 \<and> k2 < 5 \<and> 0 \<le> k3 \<and> k3 < 5) \<and>
   length (enabled_ptrs (points example_cloud)) \<le> 2 ^ 31 \<and>
   ransac example_env example_cloud [7, 8, 9] 1 1 2 (defaultSlab example_env) [] \<noteq> Inl IndexOutOfRange \<and>
   ransac example_env example_cloud [7, 8, 9] 1 1 2 (defaultSlab example_env) [] \<noteq> Inl InvalidDistribution"
proof -
  note t = draws_in_bounds[where E = example_env and pp = "[]" and i = 0 and num_iters = 5
      and slab_thickness = 1 and min_points = 2 and kdt = "PointKDTree []" and v = example_vars0]
  note u = draws_in_bounds[where E = example_env and pp = "[0, 1, 2, 3, 4]" and g = "[7, 8, 9]"
      and pc = example_cloud and num_iters = 1 and slab_thickness = 1 and min_points = 2
      and ?slab0.0 = "defaultSlab example_env" and ?slab_points0.0 = "[]"]
  have h1: "([] :: ptr list) = [] \<and> (0 :: int) < 5" by simp
  have h2: "uni_in_range example_env \<and> [0 :: nat, 1, 2, 3, 4] \<noteq> [] \<and> length [0 :: nat, 1, 2, 3, 4] \<le> 2 ^ 31"
    using tape_uni_in_range by simp
  have h3: "length (enabled_ptrs (points example_cloud)) \<le> 2 ^ 31"
    by (simp add: example_cloud_def enabled_ptrs_def)
  from t h1 have c1: "ransac_loop example_env 5 1 2 [] (PointKDTree []) 0 example_vars0 = Inr (0, example_vars0)"
    by blast
  from u h2 have c2: "size_minus_one (length [0 :: nat, 1, 2, 3, 4]) = 4"
    "\<exists>k1 k2 k3 g'. draw3 example_env [0, 1, 2, 3, 4] [7, 8, 9] = Inr (k1, k2, k3, g') \<and>
      0 \<le> k1 \<and> k1 < 5 \<and> 0 \<le> k2 \<and> k2 < 5 \<and> 0 \<le> k3 \<and> k3 < 5"
    by simp_all
  from u h2 h3 have c3:
    "ransac example_env example_cloud [7, 8, 9] 1 1 2 (defaultSlab example_env) [] \<noteq> Inl IndexOutOfRange"
    "ransac example_env example_cloud [7, 8, 9] 1 1 2 (defaultSlab example_env) [] \<noteq> Inl InvalidDistribution"
    by blast+
  from h1 h2 h3 c1 c2 c3 show ?thesis by blast
qed

section \<open>A collinear sample\<close>




section \<open>The claims\<close>

subsection \<open>C1: which candidate is recorded\<close>

text \<open>
  Claim C1. In every iteration of \<^verbatim>\<open>ransac\<close> that draws a sample, the candidate is the
  slab of the sampled plane together with the answer of its range query. It becomes
  the new best iff its count is greater than \<open>min_points\<close> and greater than
  \<open>maxPoints\<close>, the best count so far; then \<open>maxPoints\<close> is its count, the slab is
  the candidate with its corners computed from these inliers, and \<^verbatim>\<open>slab_points\<close> is
  its inlier list. Otherwise, and so whenever the count only equals the best so far,
  all three stay as they are.

  For the call as a whole: no candidate of the call has a count above both
  \<open>min_points\<close> and the value returned. When the value returned is positive it is the
  count of a candidate of the call, the slab and \<^verbatim>\<open>slab_points\<close> handed back are that
  candidate's, and every candidate drawn before it has a smaller count: of several
  candidates with the best count the first one found is kept. When the value returned
  is 0 the two arguments are as on entry.
\<close>

theorem ransac_records_best:
  "(ransac_iter E slab_thickness min_points pp kdt v = Inr v' \<longrightarrow>
      (\<exists>k1 k2 k3 g' localSlab localPoints.
         draw3 E pp (rng v) = Inr (k1, k2, k3, g') \<and>
         candidate E (points (cloud v)) slab_thickness pp kdt (k1, k2, k3) = (localSlab, localPoints) \<and>
         rng v' = g' \<and> cloud v' = cloud v \<and>
         (if min_points < int (length localPoints) \<and> maxPoints v < int (length localPoints)
          then maxPoints v' = int (length localPoints) \<and>
               slab v' = updateCorners E (points (cloud v)) localSlab localPoints \<and>
               slab_points v' = localPoints
          else maxPoints v' = maxPoints v \<and> slab v' = slab v \<and> slab_points v' = slab_points v))) \<and>
   (ransac E pc g num_iters slab_thickness min_points slab0 slab_points0 = Inr (k, w) \<longrightarrow>
      (let cs = ransac_candidates E (points pc) num_iters slab_thickness (enabled_ptrs (points pc))
                  (PointKDTree (enabled_ptrs (points pc))) 0 g
       in (\<forall>j < length cs. int (length (snd (cs ! j))) \<le> min_points \<or> int (length (snd (cs ! j))) \<le> k) \<and>
          (if 0 < k
           then \<exists>j < length cs. int (length (snd (cs ! j))) = k \<and>
                  slab w = updateCorners E (points pc) (fst (cs ! j)) (snd (cs ! j)) \<and>
                  slab_points w = snd (cs ! j) \<and>
                  (\<forall>j' < j. int (length (snd (cs ! j'))) < k)
           else slab w = slab0 \<and> slab_points w = slab_points0)))"
proof (intro conjI impI)
  assume "ransac_iter E slab_thickness min_points pp kdt v = Inr v'"
  then show "\<exists>k1 k2 k3 g' localSlab localPoints.
         draw3 E pp (rng v) = Inr (k1, k2, k3, g') \<and>
         candidate E (points (cloud v)) slab_thickness pp kdt (k1, k2, k3) = (localSlab, localPoints) \<and>
         rng v' = g' \<and> cloud v' = cloud v \<and>
         (if min_points < int (length localPoints) \<and> maxPoints v < int (length localPoints)
          then maxPoints v' = int (length localPoints) \<and>
               slab v' = updateCorners E (points (cloud v)) localSlab localPoints \<and>
               slab_points v' = localPoints
          else maxPoints v' = maxPoints v \<and> slab v' = slab v \<and> slab_points v' = slab_points v)"
    by (rule ransac_iter_step)
next
  assume "ransac E pc g num_iters slab_thickness min_points slab0 slab_points0 = Inr (k, w)"
  from ransac_first_best[OF this]
  show "let cs = ransac_candidates E (points pc) num_iters slab_thickness (enabled_ptrs (points pc))
                  (PointKDTree (enabled_ptrs (points pc))) 0 g
       in (\<forall>j < length cs. int (length (snd (cs ! j))) \<le> min_points \<or> int (length (snd (cs ! j))) \<le> k) \<and>
          (if 0 < k
           then \<exists>j < length cs. int (length (snd (cs ! j))) = k \<and>
                  slab w = updateCorners E (points pc) (fst (cs ! j)) (snd (cs ! j)) \<and>
                  slab_points w = snd (cs ! j) \<and>
                  (\<forall>j' < j. int (length (snd (cs ! j'))) < k)
           else slab w = slab0 \<and> slab_points w = slab_points0)"
    unfolding Let_def .
qed

theorem ransac_records_best_witness:
  "ransac_iter example_env 1 2 [0, 1, 2, 3, 4] (PointKDTree [0, 1, 2, 3, 4]) example_vars0 =
     Inr example_vars1 \<and>
   (\<exists>k1 k2 k3 g' localSlab localPoints.
      draw3 example_env [0, 1, 2, 3, 4] (rng example_vars0) = Inr (k1, k2, k3, g') \<and>
      candidate example_env (points (cloud example_vars0)) 1 [0, 1, 2, 3, 4]
        (PointKDTree [0, 1, 2, 3, 4]) (k1, k2, k3) = (localSlab, localPoints) \<and>
      rng example_vars1 = g' \<and> cloud example_vars1 = cloud example_vars0 \<and>
      (if 2 < int (length localPoints) \<and> maxPoints example_vars0 < int (length localPoints)
       then maxPoints example_vars1 = int (length localPoints) \<and>
            slab example_vars1 = updateCorners example_env (points (cloud example_vars0)) localSlab localPoints \<and>
            slab_points example_vars1 = localPoints
       else maxPoints example_vars1 = maxPoints example_vars0 \<and>
            slab example_vars1 = slab example_vars0 \<and>
            slab_points example_vars1 = slab_points example_vars0)) \<and>
   maxPoints example_vars1 = 4 \<and> slab_points example_vars1 = [0, 1, 2, 3] \<and>
   ransac example_env example_cloud example_tape 3 1 2 (defaultSlab example_env) [] =
     Inr (4, example_vars1) \<and>
   ransac_candidates example_env (points example_cloud) 3 1 (enabled_ptrs (points example_cloud))
     (PointKDTree (enabled_ptrs (points example_cloud))) 0 example_tape = example_candidates \<and>
   (\<exists>j < length example_candidates.
      int (length (snd (example_candidates ! j))) = 4 \<and>
      slab example_vars1 =
        updateCorners example_env (points example_cloud) (fst (example_candidates ! j))
          (snd (example_candidates ! j)) \<and>
      slab_points example_vars1 = snd (example_candidates ! j) \<and>
      (\<forall>j' < j. int (length (snd (example_candidates ! j'))) < 4)) \<and>
   int (length (snd (example_candidates ! 2))) = 4 \<and>
   slab example_vars1 \<noteq>
     updateCorners example_env (points example_cloud) (fst (example_candidates ! 2))
       (snd (example_candidates ! 2))"
proof -
  note t = ransac_records_best[where E = example_env and slab_thickness = 1 and min_points = 2
      and pp = "[0, 1, 2, 3, 4]" and kdt = "PointKDTree [0, 1, 2, 3, 4]" and v = example_vars0
      and v' = example_vars1 and pc = example_cloud and g = example_tape and num_iters = 3
      and ?slab0.0 = "defaultSlab example_env" and ?slab_points0.0 = "[]" and k = 4 and w = example_vars1]
  have a: "maxPoints example_vars1 = 4" "slab_points example_vars1 = [0, 1, 2, 3]"
    by (simp_all add: example_vars1_def)
  from t example_iter have b: "\<exists>k1 k2 k3 g' localSlab localPoints.
      draw3 example_env [0, 1, 2, 3, 4] (rng example_vars0) = Inr (k1, k2, k3, g') \<and>
      candidate example_env (points (cloud example_vars0)) 1 [0, 1, 2, 3, 4]
        (PointKDTree [0, 1, 2, 3, 4]) (k1, k2, k3) = (localSlab, localPoints) \<and>
      rng example_vars1 = g' \<and> cloud example_vars1 = cloud example_vars0 \<and>
      (if 2 < int (length localPoints) \<and> maxPoints example_vars0 < int (length localPoints)
       then maxPoints example_vars1 = int (length localPoints) \<and>
            slab example_vars1 = updateCorners example_env (points (cloud example_vars0)) localSlab localPoints \<and>
            slab_points example_vars1 = localPoints
       else maxPoints example_vars1 = maxPoints example_vars0 \<and>
            slab example_vars1 = slab example_vars0 \<and>
            slab_points example_vars1 = slab_points example_vars0)"
    by blast
  from t example_ransac_tie have c: "\<exists>j < length example_candidates.
      int (length (snd (example_candidates ! j))) = 4 \<and>
      slab example_vars1 =
        updateCorners example_env (points example_cloud) (fst (example_candidates ! j))
          (snd (example_candidates ! j)) \<and>
      slab_points example_vars1 = snd (example_candidates ! j) \<and>
      (\<forall>j' < j. int (length (snd (example_candidates ! j'))) < 4)"
    unfolding example_ransac_candidates Let_def by simp
  have d: "int (length (snd (example_candidates ! 2))) = 4"
    "slab example_vars1 \<noteq>
     updateCorners example_env (points example_cloud) (fst (example_candidates ! 2))
       (snd (example_candidates ! 2))"
    by (simp_all add: example_candidates_def example_vars1_def example_slab_def updateCorners_def Slab_def)
  from example_iter a b example_ransac_tie example_ransac_candidates c d show ?thesis by blast
qed

subsection \<open>C2: the inliers of the rounds are disjoint\<close>

text \<open>
  Claim C2. The inlier lists of the rounds that \<^verbatim>\<open>ransacMultiple\<close> accepted are
  pairwise disjoint, and each holds pointers into the cloud it was called on. Every
  inlier of a round was enabled when that round started and is disabled right after
  it, before the next round; on return all of them are disabled. The inliers of a
  round are the answer of the range query on the points enabled when it started, and
  the cloud on return is the cloud with every point enabled and then the inliers of
  all rounds disabled.
\<close>

theorem ransacMultiple_inliers_disjoint:
  assumes "ransacMultiple E seed pc num_planes num_iters slab_thickness min_points slabs0 = Inr (k, x)"
  shows "(\<forall>a b. a < b \<and> b < length (inliers x) \<longrightarrow> set (inliers x ! a) \<inter> set (inliers x ! b) = {}) \<and>
         (\<forall>a < length (inliers x). \<forall>p \<in> set (inliers x ! a).
            p < length (points pc) \<and>
            enabled (points (round_cloud pc (take a (inliers x))) ! p) \<and>
            \<not> enabled (points (round_cloud pc (take (Suc a) (inliers x))) ! p)) \<and>
         (\<forall>p \<in> set (concat (inliers x)). \<not> enabled (points (xcloud x) ! p)) \<and>
         length (inliers x) = length (slabs x) \<and>
         xcloud x = round_cloud pc (inliers x) \<and>
         (\<forall>a < length (inliers x).
            inliers x ! a =
              rangeQuery E (points (round_cloud pc (take a (inliers x))))
                (PointKDTree (enabled_ptrs (points (round_cloud pc (take a (inliers x))))))
                (slabs x ! a))"
proof -
  from ransacMultiple_inv[OF assms] have inv: "extract_inv E pc slab_thickness min_points x" by simp
  then have len: "length (inliers x) = length (slabs x)"
    and xc: "xcloud x = round_cloud pc (inliers x)" by (simp_all add: extract_inv_def)
  have disj: "set (inliers x ! a) \<inter> set (inliers x ! b) = {}"
    if "a < b" "b < length (inliers x)" for a b
  proof -
    have "p \<notin> set (inliers x ! b)" if pa: "p \<in> set (inliers x ! a)" for p
    proof
      assume pb: "p \<in> set (inliers x ! b)"
      from extract_inv_round(2)[OF inv \<open>b < length (inliers x)\<close> pb]
      have "p \<notin> set (concat (take b (inliers x)))" .
      moreover from \<open>a < b\<close> \<open>b < length (inliers x)\<close> pa
      have "p \<in> set (concat (take b (inliers x)))" by (intro nth_in_concat_take) simp_all
      ultimately show False by simp
    qed
    then show ?thesis by blast
  qed
  have flags: "p < length (points pc) \<and>
            enabled (points (round_cloud pc (take a (inliers x))) ! p) \<and>
            \<not> enabled (points (round_cloud pc (take (Suc a) (inliers x))) ! p)"
    if a: "a < length (inliers x)" and p: "p \<in> set (inliers x ! a)" for a p
  proof -
    from extract_inv_round[OF inv a p] have b: "p < length (points pc)"
      and n: "p \<notin> set (concat (take a (inliers x)))" by simp_all
    from a p have "p \<in> set (concat (take (Suc a) (inliers x)))"
      by (intro nth_in_concat_take[of a]) simp_all
    with b n show ?thesis by (simp add: enabled_round_cloud)
  qed
  have off: "\<not> enabled (points (xcloud x) ! p)" if "p \<in> set (concat (inliers x))" for p
  proof -
    from that obtain ys where "ys \<in> set (inliers x)" and py: "p \<in> set ys" by auto
    then obtain a where a: "a < length (inliers x)" and "ys = inliers x ! a"
      by (auto simp: in_set_conv_nth)
    with py have p: "p \<in> set (inliers x ! a)" by simp
    from extract_inv_round(1)[OF inv a p] that show ?thesis
      unfolding xc by (simp add: enabled_round_cloud)
  qed
  have query: "inliers x ! a =
              rangeQuery E (points (round_cloud pc (take a (inliers x))))
                (PointKDTree (enabled_ptrs (points (round_cloud pc (take a (inliers x))))))
                (slabs x ! a)" if a: "a < length (inliers x)" for a
  proof -
    from inv a len
    have "accepted E (round_cloud pc (take a (inliers x))) slab_thickness min_points
            (slabs x ! a) (inliers x ! a)" by (simp add: extract_inv_def)
    then show ?thesis unfolding accepted_def by blast
  qed
  from disj flags off len xc query show ?thesis by blast
qed

theorem ransacMultiple_inliers_disjoint_witness:
  "ransacMultiple example_env (\<lambda>i. [0, 1, 2]) two_planes 5 1 1 2 [upper_slab] =
     Inr (2, two_planes_found) \<and>
   inliers two_planes_found = [[0, 1, 2, 3], [4, 5, 6]] \<and>
   set [0 :: nat, 1, 2, 3] \<inter> set [4, 5, 6] = {} \<and>
   (4 :: nat) < length (points two_planes) \<and>
   enabled (points (round_cloud two_planes [[0, 1, 2, 3]]) ! 4) \<and>
   \<not> enabled (points (round_cloud two_planes [[0, 1, 2, 3], [4, 5, 6]]) ! 4) \<and>
   \<not> enabled (points (xcloud two_planes_found) ! 4)"
proof -
  note t = ransacMultiple_inliers_disjoint[OF example_ransacMultiple]
  have i: "inliers two_planes_found = [[0, 1, 2, 3], [4, 5, 6]]"
    by (simp add: two_planes_found_def)
  from t have "\<forall>a b. a < b \<and> b < length (inliers two_planes_found) \<longrightarrow>
      set (inliers two_planes_found ! a) \<inter> set (inliers two_planes_found ! b) = {}" by blast
  from this[rule_format, of 0 1] have d: "set [0 :: nat, 1, 2, 3] \<inter> set [4, 5, 6] = {}"
    by (simp add: i)
  from t have "\<forall>a < length (inliers two_planes_found). \<forall>p \<in> set (inliers two_planes_found ! a).
            p < length (points two_planes) \<and>
            enabled (points (round_cloud two_planes (take a (inliers two_planes_found))) ! p) \<and>
            \<not> enabled (points (round_cloud two_planes (take (Suc a) (inliers two_planes_found))) ! p)"
    by blast
  from this[rule_format, of 1 4] have f: "(4 :: nat) < length (points two_planes)"
    "enabled (points (round_cloud two_planes [[0, 1, 2, 3]]) ! 4)"
    "\<not> enabled (points (round_cloud two_planes [[0, 1, 2, 3], [4, 5, 6]]) ! 4)"
    by (simp_all add: i)
  from t have "\<forall>p \<in> set (concat (inliers two_planes_found)). \<not> enabled (points (xcloud two_planes_found) ! p)"
    by blast
  from this[rule_format, of 4] have o: "\<not> enabled (points (xcloud two_planes_found) ! 4)"
    by (simp add: i)
  from example_ransacMultiple i d f o show ?thesis by blast
qed

subsection \<open>C3: how many slabs are returned\<close>

text \<open>
  Claim C3, amended. \<^verbatim>\<open>ransacMultiple\<close> with \<open>num_planes = N\<close> returns at most
  \<open>max N 0\<close> slabs (not at most \<open>N\<close>: for a negative \<open>N\<close> it returns none). It returns
  fewer than \<open>N\<close> iff the \<^verbatim>\<open>ransac\<close> call of some round returned a value that is not
  positive, and a call of \<^verbatim>\<open>ransac\<close> returns such a value iff none of its candidates
  has a count greater than \<open>max min_points 0\<close> (not \<open>min_points\<close>: a count of 0 is never
  recorded). The return value of \<^verbatim>\<open>ransac\<close> is always either 0 or greater than both 0
  and \<open>min_points\<close>.
\<close>

theorem ransacMultiple_at_most:
  "(ransac E pc g num_iters slab_thickness min_points slab0 slab_points0 = Inr (r, v) \<longrightarrow>
      (r = 0 \<or> (0 < r \<and> min_points < r)) \<and>
      (r \<le> 0 \<longleftrightarrow>
         (\<forall>c \<in> set (ransac_candidates E (points pc) num_iters slab_thickness
                       (enabled_ptrs (points pc)) (PointKDTree (enabled_ptrs (points pc))) 0 g).
            int (length (snd c)) \<le> max min_points 0))) \<and>
   (ransacMultiple E seed pc num_planes num_iters slab_thickness min_points slabs0 = Inr (k, x) \<longrightarrow>
      k = int (length (slabs x)) \<and> 0 \<le> k \<and> k \<le> max num_planes 0 \<and>
      (k < num_planes \<longleftrightarrow> (\<exists>r \<in> set (returns x). r \<le> 0)) \<and>
      (\<forall>r \<in> set (returns x). r = 0 \<or> (0 < r \<and> min_points < r)))"
proof (intro conjI impI)
  assume "ransac E pc g num_iters slab_thickness min_points slab0 slab_points0 = Inr (r, v)"
  then show "r = 0 \<or> (0 < r \<and> min_points < r)" by (rule ransac_return_value)
next
  assume "ransac E pc g num_iters slab_thickness min_points slab0 slab_points0 = Inr (r, v)"
  then show "r \<le> 0 \<longleftrightarrow>
         (\<forall>c \<in> set (ransac_candidates E (points pc) num_iters slab_thickness
                       (enabled_ptrs (points pc)) (PointKDTree (enabled_ptrs (points pc))) 0 g).
            int (length (snd c)) \<le> max min_points 0)" by (rule ransac_zero_iff)
next
  assume a: "ransacMultiple E seed pc num_planes num_iters slab_thickness min_points slabs0 = Inr (k, x)"
  let ?counts = "map (\<lambda>lp. int (length lp)) (inliers x)"
  from ransacMultiple_inv[OF a] have k: "k = int (length (slabs x))"
    and inv: "extract_inv E pc slab_thickness min_points x"
    and alt: "k = max num_planes 0 \<and> returns x = ?counts \<or>
              k < num_planes \<and> returns x = ?counts @ [0]" by blast+
  have pos: "0 < r \<and> min_points < r" if "r \<in> set ?counts" for r
    using extract_inv_counts[OF inv that] .
  show "k = int (length (slabs x))" by (rule k)
  show "0 \<le> k" using k by simp
  show "k \<le> max num_planes 0" using alt by auto
  show "k < num_planes \<longleftrightarrow> (\<exists>r \<in> set (returns x). r \<le> 0)"
  proof
    assume "k < num_planes"
    with alt have "returns x = ?counts @ [0]" by auto
    then show "\<exists>r \<in> set (returns x). r \<le> 0" by simp
  next
    assume "\<exists>r \<in> set (returns x). r \<le> 0"
    then obtain r where r: "r \<in> set (returns x)" "r \<le> 0" by blast
    show "k < num_planes"
    proof (rule ccontr)
      assume "\<not> k < num_planes"
      with alt have "returns x = ?counts" by auto
      with r(1) have "r \<in> set ?counts" by simp
      from pos[OF this] r(2) show False by simp
    qed
  qed
  show "\<forall>r \<in> set (returns x). r = 0 \<or> (0 < r \<and> min_points < r)"
  proof
    fix r assume r: "r \<in> set (returns x)"
    from alt r have "r \<in> set ?counts \<or> r = 0" by auto
    with pos show "r = 0 \<or> (0 < r \<and> min_points < r)" by blast
  qed
qed

theorem ransacMultiple_at_most_witness:
  "ransac example_env example_cloud [0, 1, 2] 1 1 2 (defaultSlab example_env) [] =
     Inr (4, \<lparr>cloud = example_cloud, rng = [], maxPoints = 4, slab = example_slab,
              slab_points = [0, 1, 2, 3]\<rparr>) \<and>
   (0 :: int) < 4 \<and> (2 :: int) < 4 \<and>
   (\<exists>c \<in> set (ransac_candidates example_env (points example_cloud) 1 1
                 (enabled_ptrs (points example_cloud))
                 (PointKDTree (enabled_ptrs (points example_cloud))) 0 [0, 1, 2]).
      max 2 0 < int (length (snd c))) \<and>
   ransacMultiple example_env (\<lambda>i. [0, 1, 2]) two_planes 5 1 1 2 [upper_slab] =
     Inr (2, two_planes_found) \<and>
   (2 :: int) = int (length (slabs two_planes_found)) \<and> (2 :: int) \<le> max 5 0 \<and> (2 :: int) < 5 \<and>
   returns two_planes_found = [4, 3, 0]"
proof -
  note s = ransacMultiple_at_most[where E = example_env and pc = example_cloud and g = "[0, 1, 2]"
      and num_iters = 1 and slab_thickness = 1 and min_points = 2
      and ?slab0.0 = "defaultSlab example_env" and ?slab_points0.0 = "[]" and r = 4]
  from s example_ransac have a: "(4 :: int) = 0 \<or> (0 :: int) < 4 \<and> (2 :: int) < 4" by blast
  then have a': "(0 :: int) < 4 \<and> (2 :: int) < 4" by simp
  from s example_ransac
  have "(4 :: int) \<le> 0 \<longleftrightarrow>
        (\<forall>c \<in> set (ransac_candidates example_env (points example_cloud) 1 1
                 (enabled_ptrs (points example_cloud))
                 (PointKDTree (enabled_ptrs (points example_cloud))) 0 [0, 1, 2]).
           int (length (snd c)) \<le> max 2 0)" by blast
  then have e: "\<exists>c \<in> set (ransac_candidates example_env (points example_cloud) 1 1
                 (enabled_ptrs (points example_cloud))
                 (PointKDTree (enabled_ptrs (points example_cloud))) 0 [0, 1, 2]).
      max 2 0 < int (length (snd c))" by (simp add: not_le)
  note t = ransacMultiple_at_most[where E = example_env and pc = two_planes
      and seed = "\<lambda>i. [0, 1, 2]" and num_planes = 5 and num_iters = 1 and slab_thickness = 1
      and min_points = 2 and ?slabs0.0 = "[upper_slab]" and k = 2 and x = two_planes_found]
  from t example_ransacMultiple have b: "(2 :: int) = int (length (slabs two_planes_found))"
    "(2 :: int) \<le> max 5 0" by blast+
  have c: "returns two_planes_found = [4, 3, 0]" by (simp add: two_planes_found_def)
  from t example_ransacMultiple have "(2 :: int) < 5 \<longleftrightarrow> (\<exists>r \<in> set (returns two_planes_found). r \<le> 0)"
    by blast
  with c have d: "(2 :: int) < 5" by simp
  from a' b c d e example_ransac example_ransacMultiple show ?thesis by blast
qed

text \<open>
  The claim as stated fails for a negative \<open>num_planes\<close>: the loop does not run and the
  vector is left empty, which is more than \<open>num_planes\<close> slabs. It also fails for a
  negative \<open>min_points\<close>: with \<open>min_points = - 1\<close> and \<open>num_planes = 1\<close> the only round
  draws one candidate, without inliers; its count 0 is greater than \<open>min_points\<close>, yet
  \<^verbatim>\<open>ransac\<close> returns 0 and no slab is returned, fewer than \<open>num_planes\<close>.
\<close>

theorem ransacMultiple_at_most_counterexample:
  "ransacMultiple example_env (\<lambda>i. [0, 1, 2]) two_planes (- 1) 1 1 2 [] =
     Inr (0, \<lparr>xcloud = enable_all two_planes, slabs = [], inliers = [], returns = []\<rparr>) \<and>
   \<not> int (length ([] :: (vec3, plane3, int) Slab list)) \<le> - 1 \<and>
   ransacMultiple example_env (\<lambda>i. [1, 1, 1]) example_cloud 1 1 1 (- 1) [] =
     Inr (0, \<lparr>xcloud = example_cloud, slabs = [], inliers = [], returns = [0]\<rparr>) \<and>
   int (length ([] :: (vec3, plane3, int) Slab list)) < 1 \<and>
   ransac_candidates example_env (points example_cloud) 1 1 (enabled_ptrs (points example_cloud))
     (PointKDTree (enabled_ptrs (points example_cloud))) 0 [1, 1, 1] =
     [(Slab \<lparr>nvec = (0, 0, 0), offset = 0, degenerate = True\<rparr> 1, [])] \<and>
   (- 1 :: int) < int (length ([] :: ptr list))"
  using example_ransacMultiple_negative example_ransac_one_candidate
  by (simp add: ransacMultiple_def ransacMultiple_loop.simps[of _ _ "- 1"])

subsection \<open>C4: empty input\<close>

text \<open>
  Claim C4. Empty input gives an empty result and no fault: with no enabled point
  \<^verbatim>\<open>ransac\<close> returns 0; with \<open>num_iters \<le> 0\<close> it returns 0; in both cases the
  caller's \<^verbatim>\<open>slab\<close> and \<^verbatim>\<open>slab_points\<close> are as they were on entry, and no number
  is drawn. On a cloud without points \<^verbatim>\<open>ransacMultiple\<close> returns 0 and leaves the
  caller's vector of slabs empty.
\<close>

theorem empty_input:
  "(enabled_ptrs (points pc) = [] \<longrightarrow>
      ransac E pc g num_iters slab_thickness min_points slab0 slab_points0 =
        Inr (0, \<lparr>cloud = pc, rng = g, maxPoints = 0, slab = slab0, slab_points = slab_points0\<rparr>)) \<and>
   (num_iters \<le> 0 \<longrightarrow>
      ransac E pc g num_iters slab_thickness min_points slab0 slab_points0 =
        Inr (0, \<lparr>cloud = pc, rng = g, maxPoints = 0, slab = slab0, slab_points = slab_points0\<rparr>)) \<and>
   (points pc = [] \<longrightarrow>
      ransacMultiple E seed pc num_planes num_iters slab_thickness min_points slabs0 =
        Inr (0, \<lparr>xcloud = pc, slabs = [], inliers = [],
                 returns = (if 0 < num_planes then [0] else [])\<rparr>))"
proof (intro conjI impI)
  assume "enabled_ptrs (points pc) = []"
  then show "ransac E pc g num_iters slab_thickness min_points slab0 slab_points0 =
        Inr (0, \<lparr>cloud = pc, rng = g, maxPoints = 0, slab = slab0, slab_points = slab_points0\<rparr>)"
    by (simp add: ransac_def Let_def ransac_loop_empty)
next
  assume "num_iters \<le> 0"
  then show "ransac E pc g num_iters slab_thickness min_points slab0 slab_points0 =
        Inr (0, \<lparr>cloud = pc, rng = g, maxPoints = 0, slab = slab0, slab_points = slab_points0\<rparr>)"
    by (simp add: ransac_def Let_def ransac_loop_no_iters)
next
  assume e: "points pc = []"
  then have pp: "enabled_ptrs (points pc) = []" by (simp add: enabled_ptrs_def)
  have r: "ransac E pc (seed 0) num_iters slab_thickness min_points (defaultSlab E) [] =
        Inr (0, \<lparr>cloud = pc, rng = seed 0, maxPoints = 0, slab = defaultSlab E, slab_points = []\<rparr>)"
    using pp by (simp add: ransac_def Let_def ransac_loop_empty)
  show "ransacMultiple E seed pc num_planes num_iters slab_thickness min_points slabs0 =
        Inr (0, \<lparr>xcloud = pc, slabs = [], inliers = [],
                 returns = (if 0 < num_planes then [0] else [])\<rparr>)"
    by (simp add: ransacMultiple_def Let_def enable_all_empty[OF e] r
          ransacMultiple_loop.simps[of _ _ _ _ _ _ 0])
qed

theorem empty_input_witness:
  "enabled_ptrs (points disabled_cloud) = [] \<and>
   ransac example_env disabled_cloud [7, 8, 9] 5 1 0 (defaultSlab example_env) [3] =
     Inr (0, \<lparr>cloud = disabled_cloud, rng = [7, 8, 9], maxPoints = 0,
              slab = defaultSlab example_env, slab_points = [3]\<rparr>) \<and>
   (0 :: int) \<le> 0 \<and>
   ransac example_env example_cloud [7, 8, 9] 0 1 0 (defaultSlab example_env) [3] =
     Inr (0, \<lparr>cloud = example_cloud, rng = [7, 8, 9], maxPoints = 0,
              slab = defaultSlab example_env, slab_points = [3]\<rparr>) \<and>
   points empty_cloud = [] \<and>
   ransacMultiple example_env (\<lambda>i. [0, 1, 2]) empty_cloud 3 5 1 0 [defaultSlab example_env] =
     Inr (0, \<lparr>xcloud = empty_cloud, slabs = [], inliers = [], returns = [0]\<rparr>)"
proof -
  have h1: "enabled_ptrs (points disabled_cloud) = []"
    by (simp add: disabled_cloud_def enabled_ptrs_def pt_def)
  have h2: "(0 :: int) \<le> 0" by simp
  have h3: "points empty_cloud = []" by (simp add: empty_cloud_def)
  from h1 empty_input[of disabled_cloud example_env "[7, 8, 9]" 5 1 0 "defaultSlab example_env" "[3]"]
  have a: "ransac example_env disabled_cloud [7, 8, 9] 5 1 0 (defaultSlab example_env) [3] =
     Inr (0, \<lparr>cloud = disabled_cloud, rng = [7, 8, 9], maxPoints = 0,
              slab = defaultSlab example_env, slab_points = [3]\<rparr>)" by blast
  from h2 empty_input[of example_cloud example_env "[7, 8, 9]" 0 1 0 "defaultSlab example_env" "[3]"]
  have b: "ransac example_env example_cloud [7, 8, 9] 0 1 0 (defaultSlab example_env) [3] =
     Inr (0, \<lparr>cloud = example_cloud, rng = [7, 8, 9], maxPoints = 0,
              slab = defaultSlab example_env, slab_points = [3]\<rparr>)" by blast
  from h3 empty_input[of empty_cloud example_env _ 5 1 0 _ _ "\<lambda>i. [0, 1, 2]" 3 "[defaultSlab example_env]"]
  have c: "ransacMultiple example_env (\<lambda>i. [0, 1, 2]) empty_cloud 3 5 1 0 [defaultSlab example_env] =
     Inr (0, \<lparr>xcloud = empty_cloud, slabs = [], inliers = [], returns = [0]\<rparr>)" by simp
  from h1 a h2 b h3 c show ?thesis by blast
qed

subsection \<open>C5: degenerate samples\<close>




subsection \<open>C6: the enabled flags are reset\<close>

text \<open>
  Claim C6. \<^verbatim>\<open>ransacMultiple\<close> starts by setting the enabled flag of every point, so
  the first round finds all points enabled, and the whole result (the value returned,
  the slabs and the cloud on return) is the same whatever the flags were on entry.
\<close>

theorem ransacMultiple_resets_flags:
  "map enabled (points (enable_all pc)) = replicate (length (points pc)) True \<and>
   enabled_ptrs (points (enable_all pc)) = [0..<length (points pc)] \<and>
   ransacMultiple E seed pc num_planes num_iters slab_thickness min_points slabs0 =
     (case ransacMultiple_loop E seed num_planes num_iters slab_thickness min_points 0
             \<lparr>xcloud = enable_all pc, slabs = [], inliers = [], returns = []\<rparr> of
        Inl f \<Rightarrow> Inl f
      | Inr x \<Rightarrow> Inr (int (length (slabs x)), x)) \<and>
   ransacMultiple E seed (with_flags f pc) num_planes num_iters slab_thickness min_points slabs0 =
     ransacMultiple E seed pc num_planes num_iters slab_thickness min_points slabs0"
  by (simp add: enabled_enable_all enabled_ptrs_enable_all ransacMultiple_def enable_all_with_flags)

subsection \<open>C7: ransac leaves the cloud alone\<close>

text \<open>
  Claim C7. A call of \<^verbatim>\<open>ransac\<close> leaves the cloud as it found it: every point keeps
  its position, normal and enabled flag, and the bounding box is the same. What the
  call hands back is the return value and the two reference arguments: with the
  return value 0 both are as on entry; otherwise \<^verbatim>\<open>slab_points\<close> is the answer of a
  range query on the one index built on entry from the enabled points, that is, the
  points of the cloud that were enabled on entry and lie in the slab returned. The
  variables on return are those on entry with the candidates of the call recorded one
  after the other, and every candidate, in whichever iteration it was drawn, holds
  the answer of the index built on entry: the points enabled on entry that lie in its
  slab.
\<close>

theorem ransac_frame:
  assumes "ransac E pc g num_iters slab_thickness min_points slab0 slab_points0 = Inr (k, v)"
  shows "cloud v = pc \<and> points (cloud v) = points pc \<and> bbox (cloud v) = bbox pc \<and>
         (if k = 0 then slab v = slab0 \<and> slab_points v = slab_points0
          else slab_points v =
                 rangeQuery E (points pc) (PointKDTree (enabled_ptrs (points pc))) (slab v) \<and>
               slab_points v =
                 filter (\<lambda>p. enabled (points pc ! p) \<and>
                             slabContains E (plane (slab v)) (thickness (slab v))
                               (position (points pc ! p)))
                   [0..<length (points pc)]) \<and>
         v = (foldl (\<lambda>u c. record_best E min_points (fst c) (snd c) u)
                \<lparr>cloud = pc, rng = g, maxPoints = 0, slab = slab0, slab_points = slab_points0\<rparr>
                (ransac_candidates E (points pc) num_iters slab_thickness (enabled_ptrs (points pc))
                   (PointKDTree (enabled_ptrs (points pc))) 0 g))\<lparr>rng := rng v\<rparr> \<and>
         (\<forall>c \<in> set (ransac_candidates E (points pc) num_iters slab_thickness
                       (enabled_ptrs (points pc)) (PointKDTree (enabled_ptrs (points pc))) 0 g).
            snd c = filter (\<lambda>p. enabled (points pc ! p) \<and>
                                slabContains E (plane (fst c)) (thickness (fst c))
                                  (position (points pc ! p)))
                      [0..<length (points pc)])"
proof -
  have frame: "cloud v = pc \<and> points (cloud v) = points pc \<and> bbox (cloud v) = bbox pc \<and>
         (if k = 0 then slab v = slab0 \<and> slab_points v = slab_points0
          else slab_points v =
                 rangeQuery E (points pc) (PointKDTree (enabled_ptrs (points pc))) (slab v))"
  proof (cases "0 < k")
    case True
    from ransac_accepted[OF assms True] show ?thesis
      using True by (simp add: accepted_def)
  next
    case False
    then have "k \<le> 0" by simp
    from ransac_zero[OF assms this] show ?thesis by simp
  qed
  have cands: "snd c = filter (\<lambda>p. enabled (points pc ! p) \<and>
                                slabContains E (plane (fst c)) (thickness (fst c))
                                  (position (points pc ! p)))
                      [0..<length (points pc)]"
    if "c \<in> set (ransac_candidates E (points pc) num_iters slab_thickness
                       (enabled_ptrs (points pc)) (PointKDTree (enabled_ptrs (points pc))) 0 g)" for c
    using ransac_candidates_query[OF that] by (simp only: rangeQuery_enabled)
  have q: "slab_points v =
             filter (\<lambda>p. enabled (points pc ! p) \<and>
                         slabContains E (plane (slab v)) (thickness (slab v))
                           (position (points pc ! p)))
               [0..<length (points pc)]" if "k \<noteq> 0"
  proof -
    from frame that
    have "slab_points v = rangeQuery E (points pc) (PointKDTree (enabled_ptrs (points pc))) (slab v)"
      by simp
    then show ?thesis by (simp only: rangeQuery_enabled)
  qed
  show ?thesis
  proof (intro conjI)
    from frame show "cloud v = pc" "points (cloud v) = points pc" "bbox (cloud v) = bbox pc"
      by blast+
    from frame q
    show "if k = 0 then slab v = slab0 \<and> slab_points v = slab_points0
          else slab_points v =
                 rangeQuery E (points pc) (PointKDTree (enabled_ptrs (points pc))) (slab v) \<and>
               slab_points v =
                 filter (\<lambda>p. enabled (points pc ! p) \<and>
                             slabContains E (plane (slab v)) (thickness (slab v))
                               (position (points pc ! p)))
                   [0..<length (points pc)]"
      by (cases "k = 0") simp_all
    show "v = (foldl (\<lambda>u c. record_best E min_points (fst c) (snd c) u)
                \<lparr>cloud = pc, rng = g, maxPoints = 0, slab = slab0, slab_points = slab_points0\<rparr>
                (ransac_candidates E (points pc) num_iters slab_thickness (enabled_ptrs (points pc))
                   (PointKDTree (enabled_ptrs (points pc))) 0 g))\<lparr>rng := rng v\<rparr>"
      by (rule ransac_fold[OF assms])
    from cands
    show "\<forall>c \<in> set (ransac_candidates E (points pc) num_iters slab_thickness
                       (enabled_ptrs (points pc)) (PointKDTree (enabled_ptrs (points pc))) 0 g).
            snd c = filter (\<lambda>p. enabled (points pc ! p) \<and>
                                slabContains E (plane (fst c)) (thickness (fst c))
                                  (position (points pc ! p)))
                      [0..<length (points pc)]"
      by blast
  qed
qed

theorem ransac_frame_witness:
  "ransac example_env two_planes [0, 1, 2, 3, 4, 0] 2 1 2 (defaultSlab example_env) [] =
     Inr (3, \<lparr>cloud = two_planes, rng = [], maxPoints = 3, slab = lower_slab,
              slab_points = [0, 2, 3]\<rparr>) \<and>
   points two_planes =
     [pt (0, 0, 0), (pt (1, 0, 0))\<lparr>enabled := False\<rparr>, pt (0, 1, 0), pt (1, 1, 0),
      (pt (0, 0, 7))\<lparr>enabled := False\<rparr>, pt (1, 0, 7), pt (0, 1, 7)] \<and>
   bbox two_planes = Some ((0, 0, 0), (1, 1, 7)) \<and>
   [0, 2, 3] =
     rangeQuery example_env (points two_planes)
       (PointKDTree (enabled_ptrs (points two_planes))) lower_slab \<and>
   [0, 2, 3] =
     filter (\<lambda>p. enabled (points two_planes ! p) \<and>
                 slabContains example_env (plane lower_slab) (thickness lower_slab)
                   (position (points two_planes ! p)))
       [0..<length (points two_planes)] \<and>
   \<not> enabled (points two_planes ! 1) \<and>
   slabContains example_env (plane lower_slab) (thickness lower_slab)
     (position (points two_planes ! 1)) \<and>
   ransac_candidates example_env (points two_planes) 2 1 (enabled_ptrs (points two_planes))
     (PointKDTree (enabled_ptrs (points two_planes))) 0 [0, 1, 2, 3, 4, 0] =
     [(Slab \<lparr>nvec = (0, 0, - 1), offset = 0, degenerate = False\<rparr> 1, [0, 2, 3]),
      (Slab \<lparr>nvec = (- 7, - 7, 1), offset = 0, degenerate = False\<rparr> 1, [0, 5, 6])] \<and>
   [0, 5, 6] =
     filter (\<lambda>p. enabled (points two_planes ! p) \<and>
                 slabContains example_env \<lparr>nvec = (- 7, - 7, 1), offset = 0, degenerate = False\<rparr> 1
                   (position (points two_planes ! p)))
       [0..<length (points two_planes)]"
proof -
  have ne: "((3 :: int) = 0) = False" by simp
  note t = ransac_frame[OF example_ransac_two_planes, unfolded ransac_vars.select_convs ne if_False]
  from t have a: "[0, 2, 3] =
     rangeQuery example_env (points two_planes)
       (PointKDTree (enabled_ptrs (points two_planes))) lower_slab"
    "[0, 2, 3] =
     filter (\<lambda>p. enabled (points two_planes ! p) \<and>
                 slabContains example_env (plane lower_slab) (thickness lower_slab)
                   (position (points two_planes ! p)))
       [0..<length (points two_planes)]"
    by blast+
  from t have "\<forall>c \<in> set (ransac_candidates example_env (points two_planes) 2 1
                       (enabled_ptrs (points two_planes))
                       (PointKDTree (enabled_ptrs (points two_planes))) 0 [0, 1, 2, 3, 4, 0]).
            snd c = filter (\<lambda>p. enabled (points two_planes ! p) \<and>
                                slabContains example_env (plane (fst c)) (thickness (fst c))
                                  (position (points two_planes ! p)))
                      [0..<length (points two_planes)]" by blast
  from this[unfolded example_candidates_two_planes, rule_format,
      of "(Slab \<lparr>nvec = (- 7, - 7, 1), offset = 0, degenerate = False\<rparr> 1, [0, 5, 6])"]
  have b: "[0, 5, 6] =
     filter (\<lambda>p. enabled (points two_planes ! p) \<and>
                 slabContains example_env \<lparr>nvec = (- 7, - 7, 1), offset = 0, degenerate = False\<rparr> 1
                   (position (points two_planes ! p)))
       [0..<length (points two_planes)]"
    by (simp add: Slab_def)
  have c: "points two_planes =
     [pt (0, 0, 0), (pt (1, 0, 0))\<lparr>enabled := False\<rparr>, pt (0, 1, 0), pt (1, 1, 0),
      (pt (0, 0, 7))\<lparr>enabled := False\<rparr>, pt (1, 0, 7), pt (0, 1, 7)]"
    "bbox two_planes = Some ((0, 0, 0), (1, 1, 7))"
    by (simp_all add: two_planes_def)
  have d: "\<not> enabled (points two_planes ! 1)"
    "slabContains example_env (plane lower_slab) (thickness lower_slab)
       (position (points two_planes ! 1))"
    by (simp_all add: two_planes_def pt_def example_env_def lower_slab_def within_slab_def)
  from a b c d example_ransac_two_planes example_candidates_two_planes show ?thesis by blast
qed

subsection \<open>C8: sampling stays within the array\<close>

text \<open>
  Claim C8 does not hold of the code. An iteration of \<^verbatim>\<open>ransac\<close> reaches the sampling
  step only with a non-empty array of enabled points (line 212), so \<open>size - 1\<close> does
  not wrap; but line 213 hands this \<^verbatim>\<open>size_t\<close> to a distribution over \<^verbatim>\<open>int\<close>, while
  lines 192, 208 and 228 count in \<^verbatim>\<open>size_t\<close> and \<^verbatim>\<open>long\<close>. On a cloud of
  \<open>2\<^sup>3\<^sup>1 + 1\<close> enabled points the first iteration reaches the sampling step with
  \<open>size - 1 = 2\<^sup>3\<^sup>1\<close>, which converted to \<^verbatim>\<open>int\<close> is \<open>- 2\<^sup>3\<^sup>1\<close>: the distribution
  is constructed with an upper bound below its lower bound, outside its precondition,
  and no index within \<open>[0, size - 1]\<close> is drawn.
\<close>

theorem sampling_narrowing_fault:
  "length (enabled_ptrs (points big_cloud)) = 2 ^ 31 + 1 \<and>
   enabled_ptrs (points big_cloud) \<noteq> [] \<and>
   size_minus_one (length (enabled_ptrs (points big_cloud))) = 2 ^ 31 \<and>
   to_int32 (size_minus_one (length (enabled_ptrs (points big_cloud)))) = - (2 ^ 31) \<and>
   draw3 example_env (enabled_ptrs (points big_cloud)) [0, 1, 2] = Inl InvalidDistribution \<and>
   ransac example_env big_cloud [0, 1, 2] 1 1 0 (defaultSlab example_env) [] = Inl InvalidDistribution"
proof -
  have s: "size_minus_one (length (enabled_ptrs (points big_cloud))) = 2 ^ 31"
    unfolding big_cloud_size by (simp add: size_minus_one_def)
  have b: "to_int32 (size_minus_one (length (enabled_ptrs (points big_cloud)))) = - (2 ^ 31)"
    unfolding big_cloud_size by (simp add: to_int32_def size_minus_one_def)
  then have neg: "to_int32 (size_minus_one (length (enabled_ptrs (points big_cloud)))) < 0" by simp
  have ne: "enabled_ptrs (points big_cloud) \<noteq> []"
  proof
    assume "enabled_ptrs (points big_cloud) = []"
    then have "length (enabled_ptrs (points big_cloud)) = 0" by simp
    with big_cloud_size show False by simp
  qed
  have one: "(0 :: int) < 1" by simp
  from big_cloud_size ne s b
    draw3_invalid[OF neg, where E = example_env and g = "[0, 1, 2]"]
    ransac_invalid[OF neg one ne, where E = example_env and g = "[0, 1, 2]" and slab_thickness = 1
      and min_points = 0 and ?slab0.0 = "defaultSlab example_env" and ?slab_points0.0 = "[]"]
  show ?thesis by blast
qed

subsection \<open>C9: what a positive return value means\<close>

text \<open>
  Claim C9. When \<^verbatim>\<open>ransac\<close> returns a count \<open>k > 0\<close>, \<^verbatim>\<open>slab_points\<close> has exactly \<open>k\<close>
  entries, without repetition, each a pointer to a point of the cloud that was enabled
  when the call started; these entries are the answer of the range query for the
  returned slab on the index of the enabled points, so \<open>k\<close> is its inlier count; and the
  returned slab is its plane with the given thickness and the corners computed from
  exactly these inliers.
\<close>

theorem ransac_positive_result:
  assumes "ransac E pc g num_iters slab_thickness min_points slab0 slab_points0 = Inr (k, v)"
    and "0 < k"
  shows "int (length (slab_points v)) = k \<and>
         distinct (slab_points v) \<and>
         (\<forall>p \<in> set (slab_points v). p < length (points pc) \<and> enabled (points pc ! p)) \<and>
         slab_points v = rangeQuery E (points pc) (PointKDTree (enabled_ptrs (points pc))) (slab v) \<and>
         slab v = updateCorners E (points pc) (Slab (plane (slab v)) slab_thickness) (slab_points v)"
proof -
  let ?pp = "enabled_ptrs (points pc)"
  from ransac_accepted[OF assms] have len: "k = int (length (slab_points v))"
    and acc: "accepted E pc slab_thickness min_points (slab v) (slab_points v)" by simp_all
  from acc have q: "slab_points v = rangeQuery E (points pc) (PointKDTree ?pp) (slab v)"
    and th: "thickness (slab v) = slab_thickness"
    and co: "corners (slab v) =
               Some (computeCorners E (plane (slab v)) slab_thickness
                       (map (\<lambda>p. points pc ! p) (slab_points v)))"
    by (simp_all add: accepted_def)
  have sub: "set (slab_points v) \<subseteq> set ?pp"
    by (subst q) (simp add: rangeQuery_subset[of E "points pc" "PointKDTree ?pp", unfolded PointKDTree_def] PointKDTree_def)
  have d: "distinct (slab_points v)"
    by (subst q) (simp add: distinct_rangeQuery PointKDTree_def distinct_enabled_ptrs)
  have en: "\<forall>p \<in> set (slab_points v). p < length (points pc) \<and> enabled (points pc ! p)"
    using sub enabled_ptrs_bound enabled_ptrs_enabled by blast
  have sl: "slab v = updateCorners E (points pc) (Slab (plane (slab v)) slab_thickness) (slab_points v)"
    using th co by (simp add: updateCorners_def Slab_def)
  from len d en q sl show ?thesis by blast
qed

theorem ransac_positive_result_witness:
  "ransac example_env example_cloud [0, 1, 2] 1 1 2 (defaultSlab example_env) [] =
     Inr (4, \<lparr>cloud = example_cloud, rng = [], maxPoints = 4, slab = example_slab,
              slab_points = [0, 1, 2, 3]\<rparr>) \<and>
   (0 :: int) < 4 \<and>
   int (length [0 :: nat, 1, 2, 3]) = 4 \<and>
   distinct [0 :: nat, 1, 2, 3] \<and>
   [0, 1, 2, 3] =
     rangeQuery example_env (points example_cloud)
       (PointKDTree (enabled_ptrs (points example_cloud))) example_slab \<and>
   example_slab =
     updateCorners example_env (points example_cloud) (Slab (plane example_slab) 1) [0, 1, 2, 3]"
proof -
  have pos: "(0 :: int) < 4" by simp
  from ransac_positive_result[OF example_ransac pos, unfolded ransac_vars.select_convs]
    example_ransac pos
  show ?thesis by blast
qed

subsection \<open>C10: the vector of slabs\<close>

text \<open>
  Claim C10. \<^verbatim>\<open>ransacMultiple\<close> empties the caller's vector before the first round,
  so what the vector held on entry has no effect on the result. On return the value
  returned is the length of the vector, and its entry \<open>j\<close> is the slab that round \<open>j\<close>
  accepted: a slab of the given thickness, through three points enabled in that round,
  whose inliers among the points enabled in that round are the \<^verbatim>\<open>slab_points\<close> of
  that round, more than \<open>min_points\<close> of them, with the corners computed from them.
\<close>

theorem ransacMultiple_slabs:
  assumes "ransacMultiple E seed pc num_planes num_iters slab_thickness min_points slabs0 = Inr (k, x)"
  shows "ransacMultiple E seed pc num_planes num_iters slab_thickness min_points slabs0' = Inr (k, x) \<and>
         k = int (length (slabs x)) \<and>
         length (inliers x) = length (slabs x) \<and>
         (\<forall>j < length (slabs x).
            accepted E (round_cloud pc (take j (inliers x))) slab_thickness min_points
              (slabs x ! j) (inliers x ! j))"
proof -
  from ransacMultiple_inv[OF assms] have k: "k = int (length (slabs x))"
    and inv: "extract_inv E pc slab_thickness min_points x" by simp_all
  from assms ransacMultiple_slabs0[of E seed pc num_planes num_iters slab_thickness min_points slabs0' slabs0]
  have "ransacMultiple E seed pc num_planes num_iters slab_thickness min_points slabs0' = Inr (k, x)"
    by simp
  with k inv show ?thesis by (simp add: extract_inv_def)
qed

theorem ransacMultiple_slabs_witness:
  "ransacMultiple example_env (\<lambda>i. [0, 1, 2]) two_planes 5 1 1 2 [upper_slab] =
     Inr (2, two_planes_found) \<and>
   ransacMultiple example_env (\<lambda>i. [0, 1, 2]) two_planes 5 1 1 2 [] = Inr (2, two_planes_found) \<and>
   (2 :: int) = int (length (slabs two_planes_found)) \<and>
   slabs two_planes_found = [example_slab, upper_slab] \<and>
   accepted example_env (round_cloud two_planes []) 1 2 example_slab [0, 1, 2, 3] \<and>
   accepted example_env (round_cloud two_planes [[0, 1, 2, 3]]) 1 2 upper_slab [4, 5, 6]"
proof -
  note t = ransacMultiple_slabs[OF example_ransacMultiple, of "[]"]
  have s: "slabs two_planes_found = [example_slab, upper_slab]"
    and i: "inliers two_planes_found = [[0, 1, 2, 3], [4, 5, 6]]"
    by (simp_all add: two_planes_found_def)
  from t have a: "\<forall>j < length (slabs two_planes_found).
            accepted example_env (round_cloud two_planes (take j (inliers two_planes_found))) 1 2
              (slabs two_planes_found ! j) (inliers two_planes_found ! j)" by blast
  have a0: "accepted example_env (round_cloud two_planes []) 1 2 example_slab [0, 1, 2, 3]"
    using a[rule_format, of 0] by (simp add: s i)
  have a1: "accepted example_env (round_cloud two_planes [[0, 1, 2, 3]]) 1 2 upper_slab [4, 5, 6]"
    using a[rule_format, of 1] by (simp add: s i)
  from t example_ransacMultiple s a0 a1 show ?thesis by blast
qed

section \<open>The two routines return\<close>

text \<open>
  With a generator that keeps the range promise, at most \<open>2\<^sup>3\<^sup>1\<close> points and
  \<open>num_iters\<close> within the range of the \<^verbatim>\<open>int\<close> counter, no fault is possible:
  \<^verbatim>\<open>ransac\<close> and \<^verbatim>\<open>ransacMultiple\<close> return. The statements above about what they
  return are therefore statements about every such call.
\<close>

lemma ransac_iter_returns:
  assumes "uni_in_range E" and "pp \<noteq> []" and "length pp \<le> 2 ^ 31"
  shows "\<exists>u. ransac_iter E t m pp kdt v = Inr u"
proof -
  from draw3_in_bounds[OF assms, of "rng v"] obtain k1 k2 k3 g' where
    "draw3 E pp (rng v) = Inr (k1, k2, k3, g')" by blast
  then show ?thesis by (simp add: ransac_iter_def case_prod_beta)
qed

lemma ransac_loop_returns:
  assumes "uni_in_range E" and "length pp \<le> 2 ^ 31" and "n \<le> INT_MAX"
  shows "\<exists>k v'. ransac_loop E n t m pp kdt i v = Inr (k, v')"
  using assms
proof (induction E n t m pp kdt i v rule: ransac_loop.induct)
  case (1 E num_iters slab_thickness min_points pp kdt i v)
  note eq = ransac_loop.simps[of E num_iters slab_thickness min_points pp kdt i v]
  show ?case
  proof (cases "i < num_iters \<and> pp \<noteq> []")
    case False
    then show ?thesis unfolding eq by auto
  next
    case True
    then have lt: "i < num_iters" and ne: "pp \<noteq> []" by simp_all
    from ransac_iter_returns[OF "1.prems"(1) ne "1.prems"(2)] obtain u where
      it: "ransac_iter E slab_thickness min_points pp kdt v = Inr u" by blast
    from lt "1.prems"(3) have ni: "i \<noteq> INT_MAX" by simp
    from ne have l: "length pp \<noteq> 0" by simp
    from "1.IH"[OF lt l it ni "1.prems"] obtain k v' where
      "ransac_loop E num_iters slab_thickness min_points pp kdt (i + 1) u = Inr (k, v')" by blast
    with lt ne it ni show ?thesis unfolding eq by simp
  qed
qed

lemma length_enabled_ptrs_le: "length (enabled_ptrs ps) \<le> length ps"
proof -
  have "length (enabled_ptrs ps) \<le> length [0..<length ps]"
    unfolding enabled_ptrs_def by (rule length_filter_le)
  then show ?thesis by simp
qed

lemma ransac_returns:
  assumes "uni_in_range E" and "length (points pc) \<le> 2 ^ 31" and "num_iters \<le> INT_MAX"
  shows "\<exists>k v. ransac E pc g num_iters slab_thickness min_points slab0 slab_points0 = Inr (k, v)"
proof -
  from assms(2) length_enabled_ptrs_le[of "points pc"]
  have "length (enabled_ptrs (points pc)) \<le> 2 ^ 31" by linarith
  from ransac_loop_returns[OF assms(1) this assms(3)] show ?thesis
    by (simp add: ransac_def Let_def)
qed

lemma ransacMultiple_loop_returns:
  assumes "uni_in_range E" and "length (points (xcloud x)) \<le> 2 ^ 31" and "n \<le> INT_MAX"
  shows "\<exists>x'. ransacMultiple_loop E seed N n t m i x = Inr x'"
  using assms
proof (induction E seed N n t m i x rule: ransacMultiple_loop.induct)
  case (1 E seed num_planes num_iters slab_thickness min_points i x)
  note eq = ransacMultiple_loop.simps[of E seed num_planes num_iters slab_thickness min_points i x]
  show ?case
  proof (cases "i < num_planes")
    case False
    then show ?thesis unfolding eq by simp
  next
    case True
    from ransac_returns[OF "1.prems"] obtain k v where
      r: "ransac E (xcloud x) (seed i) num_iters slab_thickness min_points (defaultSlab E) [] = Inr (k, v)"
      by blast
    show ?thesis
    proof (cases "k \<le> 0")
      case True
      with \<open>i < num_planes\<close> r show ?thesis unfolding eq by simp
    next
      case False
      then have pos: "0 < k" by simp
      let ?y = "x\<lparr>xcloud := disable_all (slab_points v) (cloud v),
                  slabs := slabs x @ [slab v],
                  inliers := inliers x @ [slab_points v],
                  returns := returns x @ [k]\<rparr>"
      from ransac_accepted[OF r pos] have c: "cloud v = xcloud x" by simp
      have len: "length (points (xcloud ?y)) \<le> 2 ^ 31" using "1.prems"(2) by (simp add: c)
      from "1.IH"[OF True r refl False "1.prems"(1) len "1.prems"(3)] obtain x' where
        "ransacMultiple_loop E seed num_planes num_iters slab_thickness min_points (i + 1) ?y = Inr x'"
        by blast
      with True r False show ?thesis unfolding eq by simp
    qed
  qed
qed

lemma ransacMultiple_returns:
  assumes "uni_in_range E" and "length (points pc) \<le> 2 ^ 31" and "num_iters \<le> INT_MAX"
  shows "\<exists>k x. ransacMultiple E seed pc num_planes num_iters slab_thickness min_points slabs0 = Inr (k, x)"
proof -
  let ?x1 = "\<lparr>xcloud = enable_all pc, slabs = [], inliers = [], returns = []\<rparr>"
  have "length (points (xcloud ?x1)) \<le> 2 ^ 31" using assms(2) by simp
  from ransacMultiple_loop_returns[OF assms(1) this assms(3), of seed num_planes slab_thickness min_points 0]
  obtain x' where "ransacMultiple_loop E seed num_planes num_iters slab_thickness min_points 0 ?x1 = Inr x'"
    by blast
  then show ?thesis by (simp add: ransacMultiple_def)
qed

end
